theory Spec2Isabelle
  imports Complex_Main
begin

section \<open>KAMIS price ingestion: a model of \<^verbatim>\<open>services/kamisService.ts\<close>\<close>

text \<open>
  The theory follows \<^verbatim>\<open>backend/src/services/kamisService.ts\<close>: the commodity
  classifier (\<^verbatim>\<open>categorizeCrop\<close>, \<^verbatim>\<open>determineUnit\<close>), the row loop of
  \<^verbatim>\<open>processKamisFile\<close> with its reference-row resolution and same-day duplicate
  check, and the run log kept by \<^verbatim>\<open>syncKamisData\<close>.

  Scope of the model.
  \<^item> Text is ASCII: a JavaScript string is a \<^typ>\<open>string\<close>, and case conversion,
    trimming and the regular-expression class \<^verbatim>\<open>\s\<close> act on the ASCII letters and the
    six ASCII white-space characters only.
  \<^item> A row is what the delimited-text decoder produces: a list of (header, field) pairs
    whose fields are strings. Spreadsheet cells of other JavaScript types are not modelled.
  \<^item> A price is the exact decimal value that \<^verbatim>\<open>parseFloat\<close> reads; rounding to a
    double is not modelled.
  \<^item> The store keeps each table as a list of rows in creation order, and a lookup returns
    the first match in that order.
  \<^item> Of the database server the model has what the service's statements meet: the widths
    of the text columns, the precision of the price column, the \<^verbatim>\<open>DATE\<close> column, the
    unique indexes, the pattern matching of \<^verbatim>\<open>ILIKE\<close> and the aborted state of a
    transaction. The time zone of the database session is UTC.
\<close>

subsection \<open>JavaScript strings\<close>

definition isSpace :: "char \<Rightarrow> bool" where
  "isSpace c = (let n = (of_char c :: nat) in (9 \<le> n \<and> n \<le> 13) \<or> n = 32)"

definition isDigit :: "char \<Rightarrow> bool" where
  "isDigit c = (let n = (of_char c :: nat) in 48 \<le> n \<and> n \<le> 57)"

definition toLowerChar :: "char \<Rightarrow> char" where
  "toLowerChar c =
     (let n = (of_char c :: nat) in if 65 \<le> n \<and> n \<le> 90 then char_of (n + 32) else c)"

definition toUpperChar :: "char \<Rightarrow> char" where
  "toUpperChar c =
     (let n = (of_char c :: nat) in if 97 \<le> n \<and> n \<le> 122 then char_of (n - 32) else c)"

definition toLowerCase :: "string \<Rightarrow> string" where
  "toLowerCase s = map toLowerChar s"

definition toUpperCase :: "string \<Rightarrow> string" where
  "toUpperCase s = map toUpperChar s"

definition trimStart :: "string \<Rightarrow> string" where
  "trimStart s = dropWhile isSpace s"

definition trim :: "string \<Rightarrow> string" where
  "trim s = rev (dropWhile isSpace (rev (dropWhile isSpace s)))"

subsection \<open>The regular expressions of the classifier\<close>

text \<open>
  Every pattern of the source is an alternation of keywords, four of which contain an
  optional white-space character (\<^verbatim>\<open>\s?\<close>). \<open>js_match s alts\<close> is the truth value of
  \<^verbatim>\<open>s.match(/a|b|.../)\<close>: some alternative occurs somewhere in \<open>s\<close>.
\<close>

datatype atom = Lit char | OptSpace

fun match_here :: "atom list \<Rightarrow> string \<Rightarrow> bool" where
  "match_here [] s = True"
| "match_here (Lit c # as) s =
     (case s of [] \<Rightarrow> False | d # ds \<Rightarrow> c = d \<and> match_here as ds)"
| "match_here (OptSpace # as) s =
     ((case s of [] \<Rightarrow> False | d # ds \<Rightarrow> isSpace d \<and> match_here as ds) \<or> match_here as s)"

fun search :: "atom list \<Rightarrow> string \<Rightarrow> bool" where
  "search p [] = match_here p []"
| "search p (c # cs) = (match_here p (c # cs) \<or> search p cs)"

definition js_match :: "string \<Rightarrow> atom list list \<Rightarrow> bool" where
  "js_match s alts = list_ex (\<lambda>p. search p s) alts"

definition kw :: "string \<Rightarrow> atom list" where
  "kw s = map Lit s"

definition kw_sp :: "string \<Rightarrow> string \<Rightarrow> atom list" where
  "kw_sp a b = map Lit a @ [OptSpace] @ map Lit b"

definition re_farm_inputs :: "atom list list" where
  "re_farm_inputs = [kw ''fertilizer'']"

definition re_animal_feeds :: "atom list list" where
  "re_animal_feeds = [kw ''sunflower cake'', kw ''cotton seed cake'', kw ''bran'', kw ''pollard'']"

definition re_processed_products :: "atom list list" where
  "re_processed_products = [kw ''oil'', kw ''cooking fat'']"

definition re_cash_crops :: "atom list list" where
  "re_cash_crops = [kw ''tea'', kw ''coffee'', kw ''cotton'', kw ''macadamia'', kw ''cashew'',
     kw ''korosho'', kw ''sisal'', kw ''pyrethrum'', kw ''sunflower'']"

definition re_livestock :: "atom list list" where
  "re_livestock = [kw ''donkey'', kw ''cattle'', kw ''cow'', kw ''bull'', kw ''goat'',
     kw ''sheep'', kw ''camel'', kw ''pig'', kw ''livestock'', kw ''heifer'', kw ''steer'',
     kw ''rabbit'']"

definition re_poultry :: "atom list list" where
  "re_poultry = [kw ''chicken'', kw ''poultry'', kw ''turkey'', kw ''duck'', kw ''geese'',
     kw ''hen'']"

definition re_fisheries :: "atom list list" where
  "re_fisheries = [kw ''fish'', kw ''tilapia'', kw ''omena'', kw ''nile perch'', kw ''catfish'',
     kw ''mudfish'', kw ''haplochromis'', kw ''trout'', kw ''carp'', kw ''protopterus'',
     kw ''bass'', kw ''labeo'', kw ''mormyrus'', kw ''eel'', kw ''synodontis'', kw ''alestes'',
     kw ''barbus'', kw ''snapper'', kw ''demersal'', kw ''barracuda'', kw ''kasumba'',
     kw ''tuna'', kw ''mackerel'', kw ''shark'', kw ''sardine'', kw ''lobster'', kw ''kamba'',
     kw ''prawn'', kw ''crab'', kw ''kaa'', kw ''shrimp'', kw ''octopus'', kw ''pweza'',
     kw ''squid'', kw ''ngisi'', kw ''oyster'', kw ''scavenger'', kw ''changu'', kw ''tangu'',
     kw ''grouper'', kw ''grunt'', kw ''taamamba'', kw ''kora'', kw ''mullet'', kw ''fumi'',
     kw ''threadfin'', kw ''bream'', kw ''jack'', kw ''trevally'', kw ''kolekole'',
     kw ''halfbeak'', kw ''anchov'', kw ''herring'', kw ''marlin'', kw ''pelagic'',
     kw ''rockcode'', kw ''tewa'']"

definition re_animal_products :: "atom list list" where
  "re_animal_products = [kw ''egg'', kw ''milk'', kw ''honey'', kw ''beef'', kw ''mutton'',
     kw ''pork'', kw ''meat'']"

definition re_cereals :: "atom list list" where
  "re_cereals = [kw ''maize'', kw ''rice'', kw ''wheat'', kw ''sorghum'', kw ''millet'',
     kw ''barley'', kw ''oat'', kw ''cereal'']"

definition re_legumes :: "atom list list" where
  "re_legumes = [kw ''bean'', kw ''pea'', kw ''gram'', kw ''cowpea'', kw ''lentil'',
     kw ''njahi'', kw ''dolichos'', kw ''pulse'', kw ''soya'', kw_sp ''ground'' ''nut'',
     kw ''peanut'', kw ''njugu mawe'']"

definition re_roots_tubers :: "atom list list" where
  "re_roots_tubers = [kw ''potato'', kw ''cassava'', kw ''yam'', kw ''arrow root'',
     kw ''sweet potato'', kw ''cocoyam'', kw ''tuber'']"

definition re_fruits :: "atom list list" where
  "re_fruits = [kw ''banana'', kw ''mango'', kw ''orange'', kw ''pineapple'', kw ''pawpaw'',
     kw ''watermelon'', kw ''avocado'', kw ''passion'', kw ''lemon'', kw ''lime'',
     kw ''tangerine'', kw ''guava'', kw ''jackfruit'', kw ''berry'', kw ''berries'',
     kw ''melon'', kw ''grape'', kw ''apple'', kw_sp ''dragon'' ''fruit'', kw ''coconut'']"

definition re_vegetables :: "atom list list" where
  "re_vegetables = [kw ''tomato'', kw ''kales'', kw ''sukuma'', kw ''cabbage'', kw ''onion'',
     kw ''spinach'', kw ''carrot'', kw ''pepper'', kw ''chilli'', kw ''brinjal'',
     kw ''lettuce'', kw ''managu'', kw ''terere'', kw ''vegetable'', kw ''broccoli'',
     kw ''cauliflower'', kw ''cucumber'', kw ''kunda'', kw ''mrenda'',
     kw_sp ''spider'' ''flower'', kw ''saga'', kw ''jute'', kw ''pumpkin'', kw ''butternut'',
     kw ''capsicum'', kw ''crotolaria'', kw ''mito'', kw ''miro'', kw ''courgette'',
     kw ''okra'', kw ''gumbo'', kw_sp (''lady'' @ [CHR 0x27] @ ''s'') ''finger'']"

definition re_spices_herbs :: "atom list list" where
  "re_spices_herbs = [kw ''ginger'', kw ''garlic'', kw ''coriander'', kw ''dhania'',
     kw ''chives'', kw ''turmeric'', kw ''pepper'', kw ''chilies'']"

subsection \<open>The commodity classifier\<close>

definition categorizeCrop :: "string \<Rightarrow> string" where
  "categorizeCrop commodityName =
     (let lowerName = toLowerCase commodityName in
      if js_match lowerName re_farm_inputs then ''farm_inputs''
      else if js_match lowerName re_animal_feeds then ''animal_feeds''
      else if js_match lowerName re_processed_products then ''processed_products''
      else if js_match lowerName re_cash_crops then ''cash_crops''
      else if js_match lowerName re_livestock then ''livestock''
      else if js_match lowerName re_poultry then ''poultry''
      else if js_match lowerName re_fisheries then ''fisheries''
      else if js_match lowerName re_animal_products then ''animal_products''
      else if js_match lowerName re_cereals then ''cereals''
      else if js_match lowerName re_legumes then ''legumes''
      else if js_match lowerName re_roots_tubers then ''roots_tubers''
      else if js_match lowerName re_fruits then ''fruits''
      else if js_match lowerName re_vegetables then ''vegetables''
      else if js_match lowerName re_spices_herbs then ''spices_herbs''
      else ''general'')"

definition re_litre :: "atom list list" where
  "re_litre = [kw ''milk'', kw ''oil'', kw ''juice'', kw ''honey'', kw ''yoghurt'']"

definition re_tray :: "atom list list" where
  "re_tray = [kw ''egg'']"

definition re_piece :: "atom list list" where
  "re_piece = [kw ''timber'', kw ''post'', kw ''pole'', kw ''pineapple'', kw ''watermelon'',
     kw ''coconut'', kw ''pumpkin'', kw ''butternut'', kw ''cabbage'']"

definition determineUnit :: "string \<Rightarrow> string \<Rightarrow> string" where
  "determineUnit category commodityName =
     (let lowerName = toLowerCase commodityName in
      if category = ''livestock'' then ''head''
      else if category = ''poultry'' then ''bird''
      else if js_match lowerName re_litre then ''litre''
      else if js_match lowerName re_tray then ''tray''
      else if js_match lowerName re_piece then ''piece''
      else ''kg'')"

text \<open>
  The classifier as the specification words it: an ordered list of (pattern set,
  category) rules, run against the lower-cased name; the first rule that matches gives
  the category, and \<open>general\<close> is the answer when none does.
\<close>

definition classifierRules :: "(atom list list \<times> string) list" where
  "classifierRules =
     [(re_farm_inputs, ''farm_inputs''), (re_animal_feeds, ''animal_feeds''),
      (re_processed_products, ''processed_products''), (re_cash_crops, ''cash_crops''),
      (re_livestock, ''livestock''), (re_poultry, ''poultry''),
      (re_fisheries, ''fisheries''), (re_animal_products, ''animal_products''),
      (re_cereals, ''cereals''), (re_legumes, ''legumes''),
      (re_roots_tubers, ''roots_tubers''), (re_fruits, ''fruits''),
      (re_vegetables, ''vegetables''), (re_spices_herbs, ''spices_herbs'')]"

fun firstMatch :: "string \<Rightarrow> (atom list list \<times> string) list \<Rightarrow> string" where
  "firstMatch s [] = ''general''"
| "firstMatch s ((re, cat) # rules) = (if js_match s re then cat else firstMatch s rules)"

definition classify_spec :: "string \<Rightarrow> string" where
  "classify_spec rawName = firstMatch (toLowerCase rawName) classifierRules"

subsection \<open>Numbers: \<^verbatim>\<open>parseFloat\<close>\<close>

text \<open>
  \<^verbatim>\<open>parseFloat\<close> skips leading white space and reads the longest prefix that is a decimal
  literal: an optional sign, then \<^verbatim>\<open>Infinity\<close> or digits with an optional fraction and an
  optional exponent. With no such prefix the result is \<open>NaN\<close>. \<open>Infinite True\<close> is
  \<^verbatim>\<open>-Infinity\<close>.
\<close>

datatype jsnum = NaN | Infinite bool | Finite rat

definition digitsValue :: "string \<Rightarrow> int" where
  "digitsValue ds = foldl (\<lambda>n c. 10 * n + (of_char c - 48)) 0 ds"

definition pow10 :: "int \<Rightarrow> rat" where
  "pow10 e = (if 0 \<le> e then 10 ^ nat e else 1 / 10 ^ nat (- e))"

definition exponentPart :: "string \<Rightarrow> int" where
  "exponentPart s =
     (case s of
        [] \<Rightarrow> 0
      | c # r \<Rightarrow>
          if c = CHR ''e'' \<or> c = CHR ''E'' then
            (case r of
               [] \<Rightarrow> 0
             | d # r' \<Rightarrow>
                 if d = CHR ''-'' then - digitsValue (takeWhile isDigit r')
                 else if d = CHR ''+'' then digitsValue (takeWhile isDigit r')
                 else digitsValue (takeWhile isDigit r))
          else 0)"

definition parseFloat :: "string \<Rightarrow> jsnum" where
  "parseFloat inputString =
     (let s = trimStart inputString;
          neg = (s \<noteq> [] \<and> hd s = CHR ''-'');
          s1 = (if s \<noteq> [] \<and> (hd s = CHR ''-'' \<or> hd s = CHR ''+'') then tl s else s);
          ip = takeWhile isDigit s1;
          s2 = dropWhile isDigit s1;
          dot = (s2 \<noteq> [] \<and> hd s2 = CHR ''.'');
          fp = (if dot then takeWhile isDigit (tl s2) else []);
          s3 = (if dot then dropWhile isDigit (tl s2) else s2);
          m = (of_int (digitsValue ip) + of_int (digitsValue fp) / 10 ^ length fp)
                * pow10 (exponentPart s3)
      in if take 8 s1 = ''Infinity'' then Infinite neg
         else if ip = [] \<and> fp = [] then NaN
         else Finite (if neg then - m else m))"

definition isNaN :: "jsnum \<Rightarrow> bool" where
  "isNaN x = (x = NaN)"

text \<open>\<^verbatim>\<open>String(v)\<close> for a field that may be absent, and \<^verbatim>\<open>.replace(/,/g, '')\<close>.\<close>

definition String_of :: "string option \<Rightarrow> string" where
  "String_of v = (case v of None \<Rightarrow> ''undefined'' | Some s \<Rightarrow> s)"

definition removeCommas :: "string \<Rightarrow> string" where
  "removeCommas s = filter (\<lambda>c. c \<noteq> CHR '','') s"

subsection \<open>Dates\<close>

text \<open>
  A \<^verbatim>\<open>Date\<close> is its time value, milliseconds since the epoch; \<open>None\<close> is the invalid
  date. \<^verbatim>\<open>new Date(s)\<close> of a string reads the date-only form \<^verbatim>\<open>YYYY-MM-DD\<close> as
  midnight UTC, as the language standard fixes it; what it makes of any other string is left to
  the host, and is a parameter here (\<open>hostParse\<close>). The host also supplies the clock read by
  \<^verbatim>\<open>new Date()\<close> while row \<open>i\<close> is processed, and the offset of local time from UTC
  in milliseconds, taken as constant.
\<close>

type_synonym jsdate = "int option"

record host =
  clock :: "nat \<Rightarrow> int"
  tzOffset :: int
  hostParse :: "string \<Rightarrow> jsdate"

definition msPerDay :: int where
  "msPerDay = 86400000"

definition isLeapYear :: "int \<Rightarrow> bool" where
  "isLeapYear y = (y mod 4 = 0 \<and> (y mod 100 \<noteq> 0 \<or> y mod 400 = 0))"

definition daysInMonth :: "int \<Rightarrow> int \<Rightarrow> int" where
  "daysInMonth y m =
     (if m = 2 then (if isLeapYear y then 29 else 28)
      else if m = 4 \<or> m = 6 \<or> m = 9 \<or> m = 11 then 30 else 31)"

definition dayFromYear :: "int \<Rightarrow> int" where
  "dayFromYear y =
     365 * (y - 1970) + (y - 1969) div 4 - (y - 1901) div 100 + (y - 1601) div 400"

definition daysBeforeMonth :: "int \<Rightarrow> int \<Rightarrow> int" where
  "daysBeforeMonth y m =
     (if m = 1 then 0 else if m = 2 then 31 else if m = 3 then 59 else if m = 4 then 90
      else if m = 5 then 120 else if m = 6 then 151 else if m = 7 then 181
      else if m = 8 then 212 else if m = 9 then 243 else if m = 10 then 273
      else if m = 11 then 304 else 334)
       + (if isLeapYear y \<and> 2 < m then 1 else 0)"

definition parseIsoDate :: "string \<Rightarrow> jsdate" where
  "parseIsoDate s =
     (let ys = take 4 s; ms = take 2 (drop 5 s); ds = take 2 (drop 8 s);
          y = digitsValue ys; m = digitsValue ms; d = digitsValue ds
      in if length s = 10 \<and> list_all isDigit (ys @ ms @ ds)
            \<and> take 1 (drop 4 s) = ''-'' \<and> take 1 (drop 7 s) = ''-''
            \<and> 1 \<le> m \<and> m \<le> 12 \<and> 1 \<le> d \<and> d \<le> daysInMonth y m
         then Some (msPerDay * (dayFromYear y + daysBeforeMonth y m + (d - 1)))
         else None)"

definition Date_parse :: "host \<Rightarrow> string \<Rightarrow> jsdate" where
  "Date_parse h s = (case parseIsoDate s of Some t \<Rightarrow> Some t | None \<Rightarrow> hostParse h s)"

text \<open>
  \<^verbatim>\<open>setHours(0, 0, 0, 0)\<close> and \<^verbatim>\<open>setHours(23, 59, 59, 999)\<close> on a copy of the date:
  the first and the last millisecond of its local calendar day.
\<close>

definition startOfDay :: "host \<Rightarrow> int \<Rightarrow> int" where
  "startOfDay h t = ((t + tzOffset h) div msPerDay) * msPerDay - tzOffset h"

definition endOfDay :: "host \<Rightarrow> int \<Rightarrow> int" where
  "endOfDay h t = startOfDay h t + (msPerDay - 1)"

subsection \<open>Field extraction\<close>

text \<open>
  A decoded row lists its (header, field) pairs in the order of \<^verbatim>\<open>Object.keys\<close>.
  The loop first copies it under lower-cased, trimmed keys; a later pair overwrites an earlier
  one with the same normalised key.
\<close>

type_synonym raw_row = "(string \<times> string) list"

definition normalizeRow :: "raw_row \<Rightarrow> (string \<rightharpoonup> string)" where
  "normalizeRow rawRow = foldl (\<lambda>row (k, v). row(trim (toLowerCase k) \<mapsto> v)) Map.empty rawRow"

definition truthy :: "string option \<Rightarrow> bool" where
  "truthy v = (case v of None \<Rightarrow> False | Some s \<Rightarrow> s \<noteq> [])"

definition js_or :: "string option \<Rightarrow> string option \<Rightarrow> string option" where
  "js_or a b = (if truthy a then a else b)"

definition nullish :: "string option \<Rightarrow> string option \<Rightarrow> string option" where
  "nullish a b = (case a of None \<Rightarrow> b | Some s \<Rightarrow> Some s)"

definition cropName_of :: "(string \<rightharpoonup> string) \<Rightarrow> string" where
  "cropName_of row =
     trim (String_of (js_or (js_or (js_or (js_or (js_or (row ''crop'') (row ''crop_name''))
       (row ''commodity'')) (row ''crop name'')) (row ''productname'')) (Some [])))"

definition regionName_of :: "(string \<rightharpoonup> string) \<Rightarrow> string" where
  "regionName_of row =
     trim (String_of (js_or (js_or (js_or (js_or (row ''region'') (row ''region_name''))
       (row ''county'')) (row ''district'')) (Some [])))"

definition marketName_of :: "(string \<rightharpoonup> string) \<Rightarrow> string" where
  "marketName_of row =
     trim (String_of (js_or (js_or (js_or (row ''market'') (row ''market_name''))
       (row ''market name'')) (Some [])))"

definition priceVal_of :: "(string \<rightharpoonup> string) \<Rightarrow> jsnum" where
  "priceVal_of row =
     (let priceRaw = nullish (nullish (nullish (row ''price'') (row ''unit price''))
                        (row ''wholesale'')) (row ''retail'')
      in parseFloat (removeCommas (String_of priceRaw)))"

definition entryDate_of :: "host \<Rightarrow> int \<Rightarrow> (string \<rightharpoonup> string) \<Rightarrow> jsdate" where
  "entryDate_of h now row =
     (let dateRaw = js_or (js_or (row ''entry_date'') (row ''date'')) (row ''date'')
      in if truthy dateRaw then Date_parse h (String_of dateRaw) else Some now)"

subsection \<open>The store\<close>

text \<open>
  The five tables the service touches, with the columns it reads or writes. Identifiers are
  drawn from a counter. Time stamps of the run log are left out. The column types are those
  of the initial migration: \<^verbatim>\<open>price_entries.entry_date\<close> is a \<^verbatim>\<open>DATE\<close>, kept here as
  the number of days since 1970-01-01, and \<^verbatim>\<open>price_entries.price\<close> is a
  \<^verbatim>\<open>DECIMAL(10, 2)\<close>, kept as a rational with two decimals.
\<close>

record crops_row =
  c_id :: nat
  c_name :: string
  c_category :: string
  c_unit :: string
  c_is_active :: bool

record regions_row =
  r_id :: nat
  r_name :: string
  r_code :: string
  r_is_active :: bool

record markets_row =
  m_id :: nat
  m_name :: string
  m_region_id :: nat
  m_is_active :: bool

record price_entries_row =
  pe_id :: nat
  pe_crop_id :: nat
  pe_region_id :: nat
  pe_market_id :: "nat option"
  pe_price :: rat
  pe_entry_date :: int
  pe_source :: string
  pe_is_verified :: bool
  pe_unit :: string

record kamis_sync_logs_row =
  l_id :: nat
  l_status :: string
  l_records_processed :: nat
  l_records_inserted :: nat
  l_records_updated :: nat
  l_error_message :: "string option"

text \<open>
  The tables hold what is committed, which every batch sees. The rows that the open
  transaction has written and not yet committed are kept apart (\<open>pending_\<dots>\<close>): only
  the transaction itself sees them, after the committed rows. \<open>tx_aborted\<close> tells whether
  the database server has put the transaction into its aborted state.
\<close>

record db =
  crops :: "crops_row list"
  regions :: "regions_row list"
  markets :: "markets_row list"
  price_entries :: "price_entries_row list"
  kamis_sync_logs :: "kamis_sync_logs_row list"
  next_id :: nat
  pending_crops :: "crops_row list"
  pending_regions :: "regions_row list"
  pending_markets :: "markets_row list"
  pending_price_entries :: "price_entries_row list"
  tx_aborted :: bool

definition seen_crops :: "db \<Rightarrow> crops_row list" where
  "seen_crops d = crops d @ pending_crops d"

definition seen_regions :: "db \<Rightarrow> regions_row list" where
  "seen_regions d = regions d @ pending_regions d"

definition seen_markets :: "db \<Rightarrow> markets_row list" where
  "seen_markets d = markets d @ pending_markets d"

definition seen_price_entries :: "db \<Rightarrow> price_entries_row list" where
  "seen_price_entries d = price_entries d @ pending_price_entries d"

text \<open>
  A statement of the transaction either returns a value or throws; either way it leaves a
  store behind. The faults a statement can throw. Raised by the database server: a unique
  index refuses the new row, a text is longer than its column, a number does not fit the
  precision of its column, a \<^verbatim>\<open>LIKE\<close> pattern ends in the escape character, the
  transaction is in the aborted state, or the storage layer fails for a reason of its own
  (time-out, lost connection). Raised by the client before anything is sent: an invalid
  \<^verbatim>\<open>Date\<close> or a number that is not finite among the arguments.
\<close>

datatype fault =
  UniqueViolation | ValueTooLong | NumericOverflow | InvalidEscapeSequence
  | TransactionAborted | StorageFault | InvalidDateArgument | InvalidNumberArgument

type_synonym 'a tx = "db \<Rightarrow> (fault + 'a) \<times> db"

definition ret :: "'a \<Rightarrow> 'a tx" where
  "ret a = (\<lambda>d. (Inr a, d))"

definition andThen :: "'a tx \<Rightarrow> ('a \<Rightarrow> 'b tx) \<Rightarrow> 'b tx" where
  "andThen m f = (\<lambda>d. case m d of (Inl e, d') \<Rightarrow> (Inl e, d') | (Inr a, d') \<Rightarrow> f a d')"

text \<open>
  A statement that the server refuses leaves the transaction aborted: the server answers
  every later statement of the transaction with an error, and at the end nothing is
  committed. A statement that the client refuses never reaches the server.
\<close>

definition serverRefuses :: "fault \<Rightarrow> 'a tx" where
  "serverRefuses f = (\<lambda>d. (Inl f, d\<lparr>tx_aborted := True\<rparr>))"

definition clientRefuses :: "fault \<Rightarrow> 'a tx" where
  "clientRefuses f = (\<lambda>d. (Inl f, d))"

text \<open>
  The batch is not alone: other batches commit reference rows while it runs, and the storage
  layer may fail. Both are arguments of the model. Just before a statement runs, the outside
  world either makes it fail (\<open>Inl\<close>) or hands it the store as other batches have left it
  (\<open>Inr\<close>). \<open>world i s\<close> is what happens before statement \<open>s\<close> of row \<open>i\<close>; the
  \<open>quiet\<close> world never interferes. The outside world has no hand in what is private to
  the transaction, its uncommitted rows and its state: \<open>ownWrites d d'\<close> is the store
  \<open>d'\<close> of the outside world with the private part of \<open>d\<close>.
\<close>

datatype stmt =
  CropFind | CropCreate | RegionFind | RegionCreate | MarketFind | MarketCreate
  | DupFind | PriceCreate

type_synonym row_world = "stmt \<Rightarrow> db \<Rightarrow> fault + db"

type_synonym world = "nat \<Rightarrow> row_world"

definition quiet_row :: row_world where
  "quiet_row = (\<lambda>s d. Inr d)"

definition quiet :: world where
  "quiet = (\<lambda>i. quiet_row)"

definition ownWrites :: "db \<Rightarrow> db \<Rightarrow> db" where
  "ownWrites d d' =
     d'\<lparr>pending_crops := pending_crops d, pending_regions := pending_regions d,
        pending_markets := pending_markets d,
        pending_price_entries := pending_price_entries d, tx_aborted := tx_aborted d\<rparr>"

definition issue :: "(db \<Rightarrow> fault + db) \<Rightarrow> 'a tx \<Rightarrow> 'a tx" where
  "issue outside statement =
     (\<lambda>d. if tx_aborted d then (Inl TransactionAborted, d)
          else case outside d of
                 Inl f \<Rightarrow> serverRefuses f d
               | Inr d' \<Rightarrow> statement (ownWrites d d'))"

subsection \<open>Lookup by name: \<^verbatim>\<open>ILIKE\<close>\<close>

text \<open>
  \<^verbatim>\<open>findFirst\<close> with \<^verbatim>\<open>equals\<close> and \<^verbatim>\<open>mode: 'insensitive'\<close> is sent to PostgreSQL as
  \<^verbatim>\<open>name ILIKE $1\<close> with the searched name, unescaped, as the pattern. In a pattern
  \<^verbatim>\<open>_\<close> stands for any one character, \<^verbatim>\<open>%\<close> for any sequence of characters, and a
  backslash makes the next character literal. \<open>MatchText t p\<close> follows the server's
  matching routine of that name on text \<open>t\<close> and pattern \<open>p\<close>; \<^verbatim>\<open>ILIKE\<close> applies it to
  the lower-cased text and pattern. \<open>LIKE_ABORT\<close> is a failed match that also ends the
  search for a later starting point; \<open>LIKE_ERROR\<close> is the error the routine raises when it
  comes to a backslash that ends the pattern.
\<close>

datatype like_result = LIKE_TRUE | LIKE_FALSE | LIKE_ABORT | LIKE_ERROR

text \<open>After a \<^verbatim>\<open>%\<close>: skip further wildcards, one character of text for each \<^verbatim>\<open>_\<close>.\<close>

fun skipWild :: "string \<Rightarrow> string \<Rightarrow> (string \<times> string) option" where
  "skipWild t [] = Some (t, [])"
| "skipWild t (c # p) =
     (if c = CHR ''%'' then skipWild t p
      else if c = CHR ''_'' then (case t of [] \<Rightarrow> None | x # t' \<Rightarrow> skipWild t' p)
      else Some (t, c # p))"

function MatchText :: "string \<Rightarrow> string \<Rightarrow> like_result"
  and scanText :: "char \<Rightarrow> string \<Rightarrow> string \<Rightarrow> like_result" where
  "MatchText [] p = (if dropWhile (\<lambda>c. c = CHR ''%'') p = [] then LIKE_TRUE else LIKE_ABORT)"
| "MatchText (x # t) [] = LIKE_FALSE"
| "MatchText (x # t) (c # p) =
     (if c = CHR 0x5C then
        (case p of
           [] \<Rightarrow> LIKE_ERROR
         | q # p' \<Rightarrow> if q \<noteq> x then LIKE_FALSE else MatchText t p')
      else if c = CHR ''%'' then
        (case skipWild (x # t) p of
           None \<Rightarrow> LIKE_ABORT
         | Some (t1, []) \<Rightarrow> LIKE_TRUE
         | Some (t1, c1 # p1) \<Rightarrow>
             if c1 = CHR 0x5C then
               (case p1 of [] \<Rightarrow> LIKE_ERROR | q # p2 \<Rightarrow> scanText q t1 (c1 # p1))
             else scanText c1 t1 (c1 # p1))
      else if c = CHR ''_'' then MatchText t p
      else if c \<noteq> x then LIKE_FALSE
      else MatchText t p)"
| "scanText firstpat [] p = LIKE_ABORT"
| "scanText firstpat (x # t) p =
     (if x = firstpat then
        (case MatchText (x # t) p of
           LIKE_FALSE \<Rightarrow> scanText firstpat t p
         | matched \<Rightarrow> matched)
      else scanText firstpat t p)"
  by pat_completeness auto

termination
proof -
  have shorter: "length p1 \<le> length p" if "skipWild t p = Some (t1, p1)" for t p t1 p1
    using that by (induction t p rule: skipWild.induct) (auto split: if_splits list.splits)
  show ?thesis
    by (relation "measures
          [\<lambda>v. case v of Inl (t, p) \<Rightarrow> length p | Inr (c, t, p) \<Rightarrow> length p,
           \<lambda>v. case v of Inl (t, p) \<Rightarrow> 0 | Inr (c, t, p) \<Rightarrow> Suc (length t)]")
       (auto dest: shorter)
qed

definition ilike :: "string \<Rightarrow> string \<Rightarrow> like_result" where
  "ilike s pattern = MatchText (toLowerCase s) (toLowerCase pattern)"

text \<open>
  The first row, in table order, whose column \<open>col\<close> matches the pattern; the rows before
  it are tested, and an error raised on one of them fails the statement.
\<close>

fun findFirstLike :: "('a \<Rightarrow> string) \<Rightarrow> string \<Rightarrow> 'a list \<Rightarrow> fault + 'a option" where
  "findFirstLike col pattern [] = Inr None"
| "findFirstLike col pattern (r # rs) =
     (case ilike (col r) pattern of
        LIKE_TRUE \<Rightarrow> Inr (Some r)
      | LIKE_ERROR \<Rightarrow> Inl InvalidEscapeSequence
      | other \<Rightarrow> findFirstLike col pattern rs)"

definition lookup :: "(db \<Rightarrow> fault + 'a option) \<Rightarrow> 'a option tx" where
  "lookup query = (\<lambda>d. case query d of Inl f \<Rightarrow> serverRefuses f d | Inr res \<Rightarrow> (Inr res, d))"

definition crops_findFirst :: "string \<Rightarrow> crops_row option tx" where
  "crops_findFirst n = lookup (\<lambda>d. findFirstLike c_name n (seen_crops d))"

definition regions_findFirst :: "string \<Rightarrow> regions_row option tx" where
  "regions_findFirst n = lookup (\<lambda>d. findFirstLike r_name n (seen_regions d))"

definition markets_findFirst :: "string \<Rightarrow> nat \<Rightarrow> markets_row option tx" where
  "markets_findFirst n rid =
     lookup (\<lambda>d. findFirstLike m_name n (filter (\<lambda>m. m_region_id m = rid) (seen_markets d)))"

text \<open>
  Equality up to letter case, which is what the lookup amounts to for a name that holds
  none of the three pattern characters (\<open>plainName\<close>).
\<close>

definition insensitiveEq :: "string \<Rightarrow> string \<Rightarrow> bool" where
  "insensitiveEq a b = (toLowerCase a = toLowerCase b)"


subsection \<open>Creating rows\<close>

text \<open>
  \<^verbatim>\<open>create\<close> adds a row to the transaction's own writes unless the server refuses it:
  a text is longer than its column (\<^verbatim>\<open>VARCHAR(100)\<close> for the names, \<^verbatim>\<open>VARCHAR(50)\<close>
  for a crop's category, \<^verbatim>\<open>VARCHAR(20)\<close> for its unit, \<^verbatim>\<open>VARCHAR(10)\<close> for a region's
  code), or a unique index holds the key already: \<^verbatim>\<open>crops_name_key\<close>,
  \<^verbatim>\<open>regions_name_key\<close>, \<^verbatim>\<open>regions_code_key\<close> and \<^verbatim>\<open>markets_name_region_id_key\<close>.
\<close>

definition crops_create :: "string \<Rightarrow> string \<Rightarrow> string \<Rightarrow> crops_row tx" where
  "crops_create n cat u =
     (\<lambda>d. if 100 < length n \<or> 50 < length cat \<or> 20 < length u then serverRefuses ValueTooLong d
          else if n \<in> set (map c_name (seen_crops d)) then serverRefuses UniqueViolation d
          else let new = \<lparr>c_id = next_id d, c_name = n, c_category = cat, c_unit = u,
                           c_is_active = True\<rparr>
               in (Inr new, d\<lparr>pending_crops := pending_crops d @ [new],
                                next_id := Suc (next_id d)\<rparr>))"

definition regions_create :: "string \<Rightarrow> string \<Rightarrow> regions_row tx" where
  "regions_create n code =
     (\<lambda>d. if 100 < length n \<or> 10 < length code then serverRefuses ValueTooLong d
          else if n \<in> set (map r_name (seen_regions d))
                  \<or> code \<in> set (map r_code (seen_regions d))
          then serverRefuses UniqueViolation d
          else let new = \<lparr>r_id = next_id d, r_name = n, r_code = code, r_is_active = True\<rparr>
               in (Inr new, d\<lparr>pending_regions := pending_regions d @ [new],
                                next_id := Suc (next_id d)\<rparr>))"

definition markets_create :: "string \<Rightarrow> nat \<Rightarrow> markets_row tx" where
  "markets_create n rid =
     (\<lambda>d. if 100 < length n then serverRefuses ValueTooLong d
          else if (n, rid) \<in> set (map (\<lambda>m. (m_name m, m_region_id m)) (seen_markets d))
          then serverRefuses UniqueViolation d
          else let new = \<lparr>m_id = next_id d, m_name = n, m_region_id = rid, m_is_active = True\<rparr>
               in (Inr new, d\<lparr>pending_markets := pending_markets d @ [new],
                                next_id := Suc (next_id d)\<rparr>))"

subsection \<open>The duplicate query and the insertion of the fact\<close>

text \<open>
  A \<^verbatim>\<open>Date\<close> that goes into the \<^verbatim>\<open>DATE\<close> column, or is compared with it, counts by
  its calendar date in UTC. A price goes into the \<^verbatim>\<open>DECIMAL(10, 2)\<close> column rounded to
  two decimals, half away from zero; the server refuses it when the rounded value has more
  than eight digits before the point. The client refuses an invalid \<^verbatim>\<open>Date\<close> and a
  number that is not finite.
\<close>

definition utcDay :: "int \<Rightarrow> int" where
  "utcDay t = t div msPerDay"

definition roundCents :: "rat \<Rightarrow> rat" where
  "roundCents q =
     (if 0 \<le> q then of_int \<lfloor>q * 100 + 1 / 2\<rfloor> / 100 else - (of_int \<lfloor>- q * 100 + 1 / 2\<rfloor> / 100))"

definition decimal_10_2 :: "rat \<Rightarrow> rat option" where
  "decimal_10_2 q = (if \<bar>roundCents q\<bar> < 100000000 then Some (roundCents q) else None)"

definition price_entries_findFirst ::
  "nat \<Rightarrow> nat \<Rightarrow> nat option \<Rightarrow> jsdate \<Rightarrow> jsdate \<Rightarrow> price_entries_row option tx" where
  "price_entries_findFirst cid rid mid gte lte =
     (\<lambda>d. case (gte, lte) of
            (Some lo, Some hi) \<Rightarrow>
              (Inr (find (\<lambda>p. pe_crop_id p = cid \<and> pe_region_id p = rid \<and> pe_market_id p = mid
                              \<and> utcDay lo \<le> pe_entry_date p \<and> pe_entry_date p \<le> utcDay hi)
                         (seen_price_entries d)), d)
          | _ \<Rightarrow> clientRefuses InvalidDateArgument d)"

definition price_entries_create ::
  "nat \<Rightarrow> nat \<Rightarrow> nat option \<Rightarrow> jsnum \<Rightarrow> jsdate \<Rightarrow> string \<Rightarrow> bool \<Rightarrow> string
     \<Rightarrow> price_entries_row tx" where
  "price_entries_create cid rid mid price entry_date source is_verified unit =
     (\<lambda>d. case entry_date of
            None \<Rightarrow> clientRefuses InvalidDateArgument d
          | Some t \<Rightarrow>
              (case price of
                 Finite q \<Rightarrow>
                   (case decimal_10_2 q of
                      None \<Rightarrow> serverRefuses NumericOverflow d
                    | Some amount \<Rightarrow>
                        if 50 < length source \<or> 20 < length unit
                        then serverRefuses ValueTooLong d
                        else
                          let new = \<lparr>pe_id = next_id d, pe_crop_id = cid, pe_region_id = rid,
                                     pe_market_id = mid, pe_price = amount,
                                     pe_entry_date = utcDay t, pe_source = source,
                                     pe_is_verified = is_verified, pe_unit = unit\<rparr>
                          in (Inr new,
                              d\<lparr>pending_price_entries := pending_price_entries d @ [new],
                                next_id := Suc (next_id d)\<rparr>))
               | other \<Rightarrow> clientRefuses InvalidNumberArgument d))"

subsection \<open>Resolving the reference rows (lines 146 to 200 of the service)\<close>

definition resolveCrop :: "row_world \<Rightarrow> string \<Rightarrow> nat tx" where
  "resolveCrop w cropName =
     andThen (issue (w CropFind) (crops_findFirst cropName)) (\<lambda>cropRes.
       case cropRes of
         Some found \<Rightarrow> ret (c_id found)
       | None \<Rightarrow>
           (let cat = categorizeCrop cropName; unit = determineUnit cat cropName in
            andThen (issue (w CropCreate) (crops_create cropName cat unit)) (\<lambda>newCrop.
              ret (c_id newCrop))))"

definition regionCode :: "string \<Rightarrow> string" where
  "regionCode regionName =
     map (\<lambda>c. if isSpace c then CHR ''_'' else c) (toUpperCase regionName)"

definition resolveRegion :: "row_world \<Rightarrow> string \<Rightarrow> nat tx" where
  "resolveRegion w regionName =
     andThen (issue (w RegionFind) (regions_findFirst regionName)) (\<lambda>regionRes.
       case regionRes of
         Some found \<Rightarrow> ret (r_id found)
       | None \<Rightarrow>
           andThen (issue (w RegionCreate) (regions_create regionName (regionCode regionName)))
             (\<lambda>newRegion. ret (r_id newRegion)))"

definition resolveMarket :: "row_world \<Rightarrow> string \<Rightarrow> nat \<Rightarrow> nat option tx" where
  "resolveMarket w marketName regionId =
     (if marketName \<noteq> [] then
        andThen (issue (w MarketFind) (markets_findFirst marketName regionId)) (\<lambda>marketRes.
          case marketRes of
            Some found \<Rightarrow> ret (Some (m_id found))
          | None \<Rightarrow>
              andThen (issue (w MarketCreate) (markets_create marketName regionId))
                (\<lambda>newMarket. ret (Some (m_id newMarket))))
      else ret None)"

subsection \<open>One row: the body of the \<^verbatim>\<open>try\<close> block\<close>

datatype outcome = Inserted | Skipped

definition tryRow :: "host \<Rightarrow> row_world \<Rightarrow> int \<Rightarrow> raw_row \<Rightarrow> outcome tx" where
  "tryRow h w now rawRow =
     (let row = normalizeRow rawRow;
          cropName = cropName_of row;
          regionName = regionName_of row;
          marketName = marketName_of row;
          priceVal = priceVal_of row;
          entryDate = entryDate_of h now row
      in if cropName = [] \<or> regionName = [] \<or> isNaN priceVal then ret Skipped
         else
           andThen (resolveCrop w cropName) (\<lambda>cropId.
           andThen (resolveRegion w regionName) (\<lambda>regionId.
           andThen (resolveMarket w marketName regionId) (\<lambda>marketId.
           andThen (issue (w DupFind)
                      (price_entries_findFirst cropId regionId marketId
                         (map_option (startOfDay h) entryDate)
                         (map_option (endOfDay h) entryDate))) (\<lambda>dupCheck.
             case dupCheck of
               None \<Rightarrow>
                 andThen (issue (w PriceCreate)
                            (price_entries_create cropId regionId marketId priceVal entryDate
                               ''kamis'' True ''kg'')) (\<lambda>created. ret Inserted)
             | Some dup \<Rightarrow> ret Skipped)))))"

subsection \<open>The row loop, the transaction and the file\<close>

record counts =
  insertedCount :: nat
  skippedCount :: nat
  errorCount :: nat

fun rowLoop :: "host \<Rightarrow> world \<Rightarrow> nat \<Rightarrow> raw_row list \<Rightarrow> counts \<Rightarrow> db \<Rightarrow> counts \<times> db" where
  "rowLoop h w i [] cnt d = (cnt, d)"
| "rowLoop h w i (rawRow # rest) cnt d =
     (case tryRow h (w i) (clock h i) rawRow d of
        (Inr Inserted, d') \<Rightarrow>
          rowLoop h w (Suc i) rest (cnt\<lparr>insertedCount := insertedCount cnt + 1\<rparr>) d'
      | (Inr Skipped, d') \<Rightarrow>
          rowLoop h w (Suc i) rest (cnt\<lparr>skippedCount := skippedCount cnt + 1\<rparr>) d'
      | (Inl rowError, d') \<Rightarrow>
          rowLoop h w (Suc i) rest (cnt\<lparr>errorCount := errorCount cnt + 1\<rparr>) d')"

record aggregate =
  inserted :: nat
  skipped :: nat
  errors :: nat
  total_rows :: nat

datatype js_error = Error (message: string)

text \<open>
  \<^verbatim>\<open>prisma.$transaction\<close> opens a transaction, runs the callback in it and ends it.
  \<open>beginTx\<close>: a new transaction has written nothing and is not aborted. \<open>commitTx\<close>: its
  writes join the tables. \<open>rollbackTx\<close>: its writes are dropped. When the call fails as a
  whole (\<open>failure\<close>: time-out of the transaction, lost connection) it throws and the
  writes are dropped. Otherwise the callback's result is returned; the writes are committed
  unless a statement has left the transaction aborted, in which case the server turns the
  commit into a rollback, and the result is returned all the same. \<open>tx_aborted\<close> of the
  store left behind tells which of the two happened.
\<close>

definition beginTx :: "db \<Rightarrow> db" where
  "beginTx d = d\<lparr>pending_crops := [], pending_regions := [], pending_markets := [],
                 pending_price_entries := [], tx_aborted := False\<rparr>"

definition commitTx :: "db \<Rightarrow> db" where
  "commitTx d = d\<lparr>crops := seen_crops d, regions := seen_regions d, markets := seen_markets d,
                  price_entries := seen_price_entries d,
                  pending_crops := [], pending_regions := [], pending_markets := [],
                  pending_price_entries := []\<rparr>"

definition rollbackTx :: "db \<Rightarrow> db" where
  "rollbackTx d = d\<lparr>pending_crops := [], pending_regions := [], pending_markets := [],
                    pending_price_entries := []\<rparr>"

definition transaction :: "js_error option \<Rightarrow> (db \<Rightarrow> 'a \<times> db) \<Rightarrow> db \<Rightarrow> (js_error + 'a) \<times> db" where
  "transaction failure body d =
     (case body (beginTx d) of
        (result, d') \<Rightarrow>
          (case failure of
             Some e \<Rightarrow> (Inl e, rollbackTx d')
           | None \<Rightarrow> (Inr result, if tx_aborted d' then rollbackTx d' else commitTx d')))"

text \<open>
  \<open>decoded\<close> is what the decoder (delimited text or spreadsheet) made of the buffer: the rows,
  or the text of the error it threw.
\<close>

definition processKamisFile ::
  "host \<Rightarrow> world \<Rightarrow> js_error option \<Rightarrow> string + raw_row list \<Rightarrow> db
     \<Rightarrow> (js_error + aggregate) \<times> db" where
  "processKamisFile h w failure decoded d =
     (case decoded of
        Inl err \<Rightarrow> (Inl (Error (''Failed to parse file: '' @ err)), d)
      | Inr rows \<Rightarrow>
          transaction failure
            (\<lambda>d0. case rowLoop h w 0 rows
                          \<lparr>insertedCount = 0, skippedCount = 0, errorCount = 0\<rparr> d0 of
                     (cnt, d') \<Rightarrow>
                       (\<lparr>inserted = insertedCount cnt, skipped = skippedCount cnt,
                         errors = errorCount cnt, total_rows = length rows\<rparr>, d'))
            d)"

subsection \<open>The run log and the top-level synchronisation\<close>

definition startSyncLog :: "db \<Rightarrow> nat \<times> db" where
  "startSyncLog d =
     (let log = \<lparr>l_id = next_id d, l_status = ''running'', l_records_processed = 0,
                 l_records_inserted = 0, l_records_updated = 0, l_error_message = None\<rparr>
      in (l_id log, d\<lparr>kamis_sync_logs := kamis_sync_logs d @ [log],
                       next_id := Suc (next_id d)\<rparr>))"

definition updateSyncLog ::
  "nat \<Rightarrow> nat \<Rightarrow> nat \<Rightarrow> nat \<Rightarrow> string \<Rightarrow> string option \<Rightarrow> db \<Rightarrow> db" where
  "updateSyncLog ident processed ins updated status errorMessage d =
     d\<lparr>kamis_sync_logs :=
         map (\<lambda>l. if l_id l = ident
                  then l\<lparr>l_records_processed := processed, l_records_inserted := ins,
                         l_records_updated := updated, l_status := status,
                         l_error_message := (if truthy errorMessage then errorMessage else None)\<rparr>
                  else l)
             (kamis_sync_logs d)\<rparr>"

record sync_result =
  records_synced :: nat
  details :: aggregate

text \<open>
  \<open>latestFile\<close> is the scraper's output as the service finds it: \<open>None\<close> when the file
  does not exist, otherwise what the decoder makes of it. \<open>path\<close> is its location.
\<close>

definition syncKamisData ::
  "host \<Rightarrow> world \<Rightarrow> js_error option \<Rightarrow> string \<Rightarrow> (string + raw_row list) option \<Rightarrow> db
     \<Rightarrow> (js_error + sync_result) \<times> db" where
  "syncKamisData h w failure path latestFile d =
     (case startSyncLog d of
        (syncId, d1) \<Rightarrow>
          (case (case latestFile of
                   None \<Rightarrow>
                     (Inl (Error (''Scraper finished but no output file found at '' @ path)), d1)
                 | Some decoded \<Rightarrow> processKamisFile h w failure decoded d1) of
             (Inr result, d2) \<Rightarrow>
               (Inr \<lparr>records_synced = inserted result, details = result\<rparr>,
                updateSyncLog syncId (total_rows result) (inserted result) 0 ''completed'' None d2)
           | (Inl error, d2) \<Rightarrow>
               (Inl error,
                updateSyncLog syncId 0 0 0 ''failed'' (Some (message error)) d2)))"

subsection \<open>Example inputs\<close>

text \<open>
  A fresh store, one that holds the region "Central Kenya" as the seed script creates
  it, one that also holds the region "Nairobi" and the crop "Maize", and one that
  moreover holds a price of Maize in Central Kenya for 2024-01-09; a host on East Africa Time (three hours ahead of UTC) whose clock stands at
  2024-01-10 09:00 UTC and which reads no date format beyond \<^verbatim>\<open>YYYY-MM-DD\<close>, and the
  same host six hours later; the two rows of the specification's scenario; rows with price
  zero, a negative price and an infinite price; a row with no date column; a row whose date
  text does not parse; a row without region, one whose price is no number and one whose
  region has a name of sixteen characters; and a world
  in which another batch commits the crop "Maize" between this batch's lookup and its
  create.
\<close>

definition emptyDb :: db where
  "emptyDb = \<lparr>crops = [], regions = [], markets = [], price_entries = [],
              kamis_sync_logs = [], next_id = 0,
              pending_crops = [], pending_regions = [], pending_markets = [],
              pending_price_entries = [], tx_aborted = False\<rparr>"

definition seededDb :: db where
  "seededDb = \<lparr>crops = [],
               regions = [\<lparr>r_id = 0, r_name = ''Central Kenya'', r_code = ''CENTRAL'',
                           r_is_active = True\<rparr>],
               markets = [], price_entries = [], kamis_sync_logs = [], next_id = 1,
               pending_crops = [], pending_regions = [], pending_markets = [],
               pending_price_entries = [], tx_aborted = False\<rparr>"

definition stockedDb :: db where
  "stockedDb = \<lparr>crops = [\<lparr>c_id = 1, c_name = ''Maize'', c_category = ''cereals'',
                            c_unit = ''kg'', c_is_active = True\<rparr>],
                regions = [\<lparr>r_id = 0, r_name = ''Central Kenya'', r_code = ''CENTRAL'',
                            r_is_active = True\<rparr>,
                           \<lparr>r_id = 2, r_name = ''Nairobi'', r_code = ''NAIROBI'',
                            r_is_active = True\<rparr>],
                markets = [], price_entries = [], kamis_sync_logs = [], next_id = 3,
                pending_crops = [], pending_regions = [], pending_markets = [],
                pending_price_entries = [], tx_aborted = False\<rparr>"

definition staleDb :: db where
  "staleDb = stockedDb\<lparr>price_entries :=
                [\<lparr>pe_id = 3, pe_crop_id = 1, pe_region_id = 0, pe_market_id = None,
                  pe_price = 44, pe_entry_date = 19731, pe_source = ''kamis'',
                  pe_is_verified = True, pe_unit = ''kg''\<rparr>],
              next_id := 4\<rparr>"

definition eatHost :: host where
  "eatHost = \<lparr>clock = (\<lambda>i. 1704877200000), tzOffset = 10800000, hostParse = (\<lambda>s. None)\<rparr>"

definition eatHostLater :: host where
  "eatHostLater = \<lparr>clock = (\<lambda>i. 1704898800000), tzOffset = 10800000, hostParse = (\<lambda>s. None)\<rparr>"

definition maizeRow1 :: raw_row where
  "maizeRow1 = [(''crop'', ''Maize''), (''region'', ''Central Kenya''), (''price'', ''45.50''),
                (''date'', ''2024-01-10'')]"

definition maizeRow2 :: raw_row where
  "maizeRow2 = [(''crop'', ''Maize''), (''region'', ''Central Kenya''), (''price'', ''46.00''),
                (''date'', ''2024-01-10'')]"





definition badDateRow :: raw_row where
  "badDateRow = [(''crop'', ''Maize''), (''region'', ''Nairobi''), (''price'', ''45.50''),
                 (''date'', ''not a date'')]"

definition noRegionRow :: raw_row where
  "noRegionRow = [(''crop'', ''Maize''), (''price'', ''45.50''), (''date'', ''2024-01-10'')]"

definition longRegionRow :: raw_row where
  "longRegionRow = [(''crop'', ''Beans''), (''region'', ''Trans Nzoia East''),
                    (''price'', ''120''), (''date'', ''2024-01-10'')]"

definition racingCrop :: crops_row where
  "racingCrop = \<lparr>c_id = 1000, c_name = ''Maize'', c_category = ''cereals'', c_unit = ''kg'',
                 c_is_active = True\<rparr>"

definition racingWorld :: world where
  "racingWorld = (\<lambda>i s d. if s = CropCreate then Inr (d\<lparr>crops := crops d @ [racingCrop]\<rparr>)
                          else Inr d)"


definition milkRow :: raw_row where
  "milkRow = [(''Commodity'', ''Fresh Milk''), (''County'', ''Nakuru''), (''Market'', ''Wakulima''),
              (''Retail'', ''1,250''), (''Date'', ''2024-01-10'')]"

subsection \<open>Predicates used in the statements\<close>

text \<open>
  An outside world that leaves the crops and the facts alone: other batches may add regions
  and markets, and statements may fail, but no crop and no price entry comes or goes from
  outside.
\<close>

definition leaves_crops_and_facts :: "row_world \<Rightarrow> bool" where
  "leaves_crops_and_facts w =
     (\<forall>s d d'. w s d = Inr d' \<longrightarrow> price_entries d' = price_entries d \<and> crops d' = crops d)"

definition kamisFact :: "price_entries_row \<Rightarrow> bool" where
  "kamisFact p = (pe_unit p = ''kg'' \<and> pe_source p = ''kamis'' \<and> pe_is_verified p)"

definition classifiedCrop :: "crops_row \<Rightarrow> bool" where
  "classifiedCrop c =
     (c_category c = categorizeCrop (c_name c)
      \<and> c_unit c = determineUnit (categorizeCrop (c_name c)) (c_name c) \<and> c_is_active c)"

text \<open>
  \<open>tx_rel m R\<close>: whatever statement sequence \<open>m\<close> returns or throws, the store it leaves
  is related by \<open>R\<close> to the store it started from. \<open>world_rel w R\<close>: the same for every
  change the outside world makes. \<open>abort_rel R\<close>: the same for the transaction turning
  aborted.
\<close>

definition tx_rel :: "'a tx \<Rightarrow> (db \<Rightarrow> db \<Rightarrow> bool) \<Rightarrow> bool" where
  "tx_rel m R = (\<forall>d res d'. m d = (res, d') \<longrightarrow> R d d')"

definition world_rel :: "row_world \<Rightarrow> (db \<Rightarrow> db \<Rightarrow> bool) \<Rightarrow> bool" where
  "world_rel w R = (\<forall>s d d'. w s d = Inr d' \<longrightarrow> R d (ownWrites d d'))"

definition abort_rel :: "(db \<Rightarrow> db \<Rightarrow> bool) \<Rightarrow> bool" where
  "abort_rel R = (\<forall>d. R d (d\<lparr>tx_aborted := True\<rparr>))"

text \<open>
  \<open>grown_by_engine d d'\<close>: from \<open>d\<close> to \<open>d'\<close> the committed facts and crops stayed, the
  transaction's own facts grew by entries with unit kg, source kamis and the verified flag,
  and its own crops grew by rows carrying the classifier's category and unit.
\<close>

definition grown_by_engine :: "db \<Rightarrow> db \<Rightarrow> bool" where
  "grown_by_engine d d' =
     (price_entries d' = price_entries d \<and> crops d' = crops d
      \<and> (\<exists>ps. pending_price_entries d' = pending_price_entries d @ ps \<and> list_all kamisFact ps)
      \<and> (\<exists>cs. pending_crops d' = pending_crops d @ cs \<and> list_all classifiedCrop cs))"

text \<open>Short names for the last two statements of a row, as \<open>tryRow\<close> issues them.\<close>

abbreviation dupQuery ::
  "host \<Rightarrow> int \<Rightarrow> (string \<rightharpoonup> string) \<Rightarrow> nat \<Rightarrow> nat \<Rightarrow> nat option
     \<Rightarrow> price_entries_row option tx" where
  "dupQuery h now row cropId regionId marketId \<equiv>
     price_entries_findFirst cropId regionId marketId
       (map_option (startOfDay h) (entryDate_of h now row))
       (map_option (endOfDay h) (entryDate_of h now row))"

abbreviation factInsert ::
  "host \<Rightarrow> int \<Rightarrow> (string \<rightharpoonup> string) \<Rightarrow> nat \<Rightarrow> nat \<Rightarrow> nat option \<Rightarrow> price_entries_row tx" where
  "factInsert h now row cropId regionId marketId \<equiv>
     price_entries_create cropId regionId marketId (priceVal_of row) (entryDate_of h now row)
       ''kamis'' True ''kg''"




definition rejected :: "(string \<rightharpoonup> string) \<Rightarrow> bool" where
  "rejected row = (cropName_of row = [] \<or> regionName_of row = [] \<or> isNaN (priceVal_of row))"

definition foundRefs :: "(string \<rightharpoonup> string) \<Rightarrow> db \<Rightarrow> (nat \<times> nat \<times> nat option) option" where
  "foundRefs row d =
     (case findFirstLike c_name (cropName_of row) (seen_crops d) of
        Inr (Some c) \<Rightarrow>
          (case findFirstLike r_name (regionName_of row) (seen_regions d) of
             Inr (Some r) \<Rightarrow>
               (if marketName_of row = [] then Some (c_id c, r_id r, None)
                else (case findFirstLike m_name (marketName_of row)
                             (filter (\<lambda>m. m_region_id m = r_id r) (seen_markets d)) of
                        Inr (Some m) \<Rightarrow> Some (c_id c, r_id r, Some (m_id m))
                      | other \<Rightarrow> None))
           | other \<Rightarrow> None)
      | other \<Rightarrow> None)"

definition duplicateOf ::
  "host \<Rightarrow> int \<Rightarrow> nat \<Rightarrow> nat \<Rightarrow> nat option \<Rightarrow> db \<Rightarrow> price_entries_row option" where
  "duplicateOf h t cropId regionId marketId d =
     find (\<lambda>p. pe_crop_id p = cropId \<and> pe_region_id p = regionId \<and> pe_market_id p = marketId
                \<and> utcDay (startOfDay h t) \<le> pe_entry_date p
                \<and> pe_entry_date p \<le> utcDay (endOfDay h t))
          (seen_price_entries d)"

text \<open>
  An outside world that may fail statements but commits nothing: no other batch is at work.
  \<open>same_tables d d'\<close>: the committed tables and the run log are the same.
\<close>

definition faults_only :: "row_world \<Rightarrow> bool" where
  "faults_only w = (\<forall>s d d'. w s d = Inr d' \<longrightarrow> d' = d)"

definition same_tables :: "db \<Rightarrow> db \<Rightarrow> bool" where
  "same_tables d d' =
     (crops d' = crops d \<and> regions d' = regions d \<and> markets d' = markets d
      \<and> price_entries d' = price_entries d \<and> kamis_sync_logs d' = kamis_sync_logs d)"





section \<open>Properties\<close>

subsection \<open>The classifier is an ordered first-match rule list\<close>

lemma firstMatch_nth:
  "i < length rules \<Longrightarrow> js_match s (fst (rules ! i)) \<Longrightarrow>
   (\<forall>k<i. \<not> js_match s (fst (rules ! k))) \<Longrightarrow> firstMatch s rules = snd (rules ! i)"
proof (induction rules arbitrary: i)
  case Nil
  then show ?case by simp
next
  case (Cons r rules)
  obtain re cat where r: "r = (re, cat)" by (cases r)
  show ?case
  proof (cases i)
    case 0
    with Cons.prems r show ?thesis by simp
  next
    case (Suc j)
    from Cons.prems(3) Suc have "\<not> js_match s re" using r by auto
    moreover have "firstMatch s rules = snd (rules ! j)"
    proof (rule Cons.IH)
      show "j < length rules" using Cons.prems(1) Suc by simp
      show "js_match s (fst (rules ! j))" using Cons.prems(2) Suc by simp
      show "\<forall>k<j. \<not> js_match s (fst (rules ! k))"
      proof (intro allI impI)
        fix k assume "k < j"
        then have "Suc k < i" using Suc by simp
        with Cons.prems(3) have "\<not> js_match s (fst ((r # rules) ! Suc k))" by blast
        then show "\<not> js_match s (fst (rules ! k))" by simp
      qed
    qed
    ultimately show ?thesis using r Suc by simp
  qed
qed

lemma firstMatch_none:
  "(\<forall>i<length rules. \<not> js_match s (fst (rules ! i))) \<Longrightarrow> firstMatch s rules = ''general''"
proof (induction rules)
  case Nil
  then show ?case by simp
next
  case (Cons r rules)
  obtain re cat where r: "r = (re, cat)" by (cases r)
  from Cons.prems have "\<not> js_match s (fst ((r # rules) ! 0))" by blast
  then have "\<not> js_match s re" using r by simp
  moreover have "\<forall>i<length rules. \<not> js_match s (fst (rules ! i))"
  proof (intro allI impI)
    fix i assume "i < length rules"
    then have "Suc i < length (r # rules)" by simp
    with Cons.prems have "\<not> js_match s (fst ((r # rules) ! Suc i))" by blast
    then show "\<not> js_match s (fst (rules ! i))" by simp
  qed
  ultimately show ?case using Cons.IH r by simp
qed

lemma categorizeCrop_refines: "categorizeCrop name = classify_spec name"
  by (simp add: categorizeCrop_def classify_spec_def classifierRules_def Let_def)

text \<open>
  Claim C6. The classifier runs its rules in order against the lower-cased name and the
  first rule that matches decides: \<open>categorizeCrop\<close> equals the first-match
  evaluation of the ordered rule list, a name that matches rule \<open>i\<close> and no earlier
  rule gets the category of rule \<open>i\<close> whatever later rules match, and a name that
  matches no rule is \<open>general\<close>. "Free range chicken" is poultry, "White Maize" is
  cereals and "Widget XJ-9" is general.
\<close>

theorem categorizeCrop_ordered_first_match:
  "(\<forall>name. categorizeCrop name = firstMatch (toLowerCase name) classifierRules)
   \<and> categorizeCrop ''Free range chicken'' = ''poultry''
   \<and> categorizeCrop ''White Maize'' = ''cereals''
   \<and> categorizeCrop ''Widget XJ-9'' = ''general''
   \<and> (\<forall>name i. i < length classifierRules
          \<and> js_match (toLowerCase name) (fst (classifierRules ! i))
          \<and> (\<forall>k<i. \<not> js_match (toLowerCase name) (fst (classifierRules ! k)))
        \<longrightarrow> categorizeCrop name = snd (classifierRules ! i))
   \<and> (\<forall>name. (\<forall>i<length classifierRules.
                  \<not> js_match (toLowerCase name) (fst (classifierRules ! i)))
        \<longrightarrow> categorizeCrop name = ''general'')"
proof (intro conjI allI impI)
  fix name
  show "categorizeCrop name = firstMatch (toLowerCase name) classifierRules"
    using categorizeCrop_refines by (simp add: classify_spec_def)
next
  show "categorizeCrop ''Free range chicken'' = ''poultry''" by code_simp
next
  show "categorizeCrop ''White Maize'' = ''cereals''" by code_simp
next
  show "categorizeCrop ''Widget XJ-9'' = ''general''" by code_simp
next
  fix name i
  assume "i < length classifierRules
          \<and> js_match (toLowerCase name) (fst (classifierRules ! i))
          \<and> (\<forall>k<i. \<not> js_match (toLowerCase name) (fst (classifierRules ! k)))"
  then have "firstMatch (toLowerCase name) classifierRules = snd (classifierRules ! i)"
    using firstMatch_nth by blast
  then show "categorizeCrop name = snd (classifierRules ! i)"
    using categorizeCrop_refines by (simp add: classify_spec_def)
next
  fix name
  assume "\<forall>i<length classifierRules. \<not> js_match (toLowerCase name) (fst (classifierRules ! i))"
  then have "firstMatch (toLowerCase name) classifierRules = ''general''"
    by (rule firstMatch_none)
  then show "categorizeCrop name = ''general''"
    using categorizeCrop_refines by (simp add: classify_spec_def)
qed

text \<open>
  "Sunflower oil" matches the processed-products rule (\<open>oil\<close>) and the later cash-crop
  rule (\<open>sunflower\<close>), and no earlier rule: the earlier of the two decides.
\<close>

theorem categorizeCrop_ordered_first_match_witness:
  "js_match (toLowerCase ''Sunflower oil'') re_processed_products
   \<and> js_match (toLowerCase ''Sunflower oil'') re_cash_crops
   \<and> \<not> js_match (toLowerCase ''Sunflower oil'') re_farm_inputs
   \<and> \<not> js_match (toLowerCase ''Sunflower oil'') re_animal_feeds
   \<and> categorizeCrop ''Sunflower oil'' = ''processed_products''"
proof -
  have m2: "js_match (toLowerCase ''Sunflower oil'') re_processed_products" by code_simp
  have m3: "js_match (toLowerCase ''Sunflower oil'') re_cash_crops" by code_simp
  have n0: "\<not> js_match (toLowerCase ''Sunflower oil'') re_farm_inputs" by code_simp
  have n1: "\<not> js_match (toLowerCase ''Sunflower oil'') re_animal_feeds" by code_simp
  have len: "(2::nat) < length classifierRules" by (simp add: classifierRules_def)
  have at2: "classifierRules ! 2 = (re_processed_products, ''processed_products'')"
    by (simp add: classifierRules_def)
  have before: "\<forall>k<2. \<not> js_match (toLowerCase ''Sunflower oil'') (fst (classifierRules ! k))"
  proof (intro allI impI)
    fix k :: nat assume "k < 2"
    then consider "k = 0" | "k = 1" by linarith
    then show "\<not> js_match (toLowerCase ''Sunflower oil'') (fst (classifierRules ! k))"
      using n0 n1 by cases (simp_all add: classifierRules_def)
  qed
  from categorizeCrop_ordered_first_match
  have "\<forall>name i. i < length classifierRules
          \<and> js_match (toLowerCase name) (fst (classifierRules ! i))
          \<and> (\<forall>k<i. \<not> js_match (toLowerCase name) (fst (classifierRules ! k)))
        \<longrightarrow> categorizeCrop name = snd (classifierRules ! i)"
    by blast
  then have "categorizeCrop ''Sunflower oil'' = snd (classifierRules ! 2)"
    using len m2 before at2 by (metis fst_conv)
  then show ?thesis using m2 m3 n0 n1 at2 by simp
qed

subsection \<open>Statements in sequence\<close>

lemma andThen_Inl: "m d = (Inl e, d') \<Longrightarrow> andThen m f d = (Inl e, d')"
  by (simp add: andThen_def)

lemma andThen_Inr: "m d = (Inr a, d') \<Longrightarrow> andThen m f d = f a d'"
  by (simp add: andThen_def)

lemma andThen_cases:
  assumes "andThen m f d = (res, d')"
  obtains (fails) e where "m d = (Inl e, d')" and "res = Inl e"
        | (goes_on) a d1 where "m d = (Inr a, d1)" and "f a d1 = (res, d')"
proof (cases "m d")
  case (Pair r d1)
  show ?thesis
  proof (cases r)
    case (Inl e)
    with Pair assms have "res = Inl e" "d' = d1" by (simp_all add: andThen_def)
    with Pair Inl show ?thesis using fails by simp
  next
    case (Inr a)
    with Pair assms have "f a d1 = (res, d')" by (simp add: andThen_def)
    with Pair Inr show ?thesis using goes_on by simp
  qed
qed

lemma ret_eq: "ret a d = (res, d') \<longleftrightarrow> res = Inr a \<and> d' = d"
  by (auto simp: ret_def)

subsection \<open>How a run ends\<close>

lemma processKamisFile_run:
  assumes "processKamisFile h w failure (Inr rows) d = (res, d')"
  shows "\<exists>cnt d1.
    rowLoop h w 0 rows \<lparr>insertedCount = 0, skippedCount = 0, errorCount = 0\<rparr> (beginTx d)
       = (cnt, d1)
    \<and> (failure = None \<longrightarrow>
           res = Inr \<lparr>inserted = insertedCount cnt, skipped = skippedCount cnt,
                       errors = errorCount cnt, total_rows = length rows\<rparr>
           \<and> d' = (if tx_aborted d1 then rollbackTx d1 else commitTx d1))
    \<and> (\<forall>e. failure = Some e \<longrightarrow> res = Inl e \<and> d' = rollbackTx d1)"
proof -
  obtain cnt d1 where loop:
    "rowLoop h w 0 rows \<lparr>insertedCount = 0, skippedCount = 0, errorCount = 0\<rparr> (beginTx d)
       = (cnt, d1)"
    by (cases "rowLoop h w 0 rows \<lparr>insertedCount = 0, skippedCount = 0, errorCount = 0\<rparr>
                 (beginTx d)")
  with assms show ?thesis
    by (cases failure) (auto simp: processKamisFile_def transaction_def)
qed

subsection \<open>The counters\<close>

lemma rowLoop_counts:
  "rowLoop h w i rows cnt d = (cnt', d') \<Longrightarrow>
   insertedCount cnt' + skippedCount cnt' + errorCount cnt'
     = insertedCount cnt + skippedCount cnt + errorCount cnt + length rows"
proof (induction rows arbitrary: i cnt d)
  case Nil
  then show ?case by simp
next
  case (Cons rawRow rest)
  obtain res d1 where step: "tryRow h (w i) (clock h i) rawRow d = (res, d1)"
    by (cases "tryRow h (w i) (clock h i) rawRow d")
  show ?case
  proof (cases res)
    case (Inl rowError)
    with step Cons.prems
    have "rowLoop h w (Suc i) rest (cnt\<lparr>errorCount := errorCount cnt + 1\<rparr>) d1 = (cnt', d')"
      by simp
    from Cons.IH [OF this] show ?thesis by simp
  next
    case (Inr out)
    show ?thesis
    proof (cases out)
      case Inserted
      with step Inr Cons.prems
      have "rowLoop h w (Suc i) rest (cnt\<lparr>insertedCount := insertedCount cnt + 1\<rparr>) d1 = (cnt', d')"
        by simp
      from Cons.IH [OF this] show ?thesis by simp
    next
      case Skipped
      with step Inr Cons.prems
      have "rowLoop h w (Suc i) rest (cnt\<lparr>skippedCount := skippedCount cnt + 1\<rparr>) d1 = (cnt', d')"
        by simp
      from Cons.IH [OF this] show ?thesis by simp
    qed
  qed
qed

lemma rowLoop_one_counter:
  "fst (rowLoop h w i [rawRow] cnt d) = cnt\<lparr>insertedCount := insertedCount cnt + 1\<rparr>
   \<or> fst (rowLoop h w i [rawRow] cnt d) = cnt\<lparr>skippedCount := skippedCount cnt + 1\<rparr>
   \<or> fst (rowLoop h w i [rawRow] cnt d) = cnt\<lparr>errorCount := errorCount cnt + 1\<rparr>"
proof -
  obtain res d1 where step: "tryRow h (w i) (clock h i) rawRow d = (res, d1)"
    by (cases "tryRow h (w i) (clock h i) rawRow d")
  show ?thesis
  proof (cases res)
    case (Inl e)
    with step show ?thesis by simp
  next
    case (Inr out)
    with step show ?thesis by (cases out) simp_all
  qed
qed

text \<open>
  Claim C9. Whenever \<open>processKamisFile\<close> returns an aggregate, the file was decoded into
  rows, \<open>total_rows\<close> is their number, and \<open>inserted + skipped + errors = total_rows\<close>;
  one pass of the loop body adds one to exactly one of the three counters. This holds for
  every host, every outside world and every store.
\<close>

theorem processKamisFile_counters_partition:
  "(processKamisFile h w failure decoded d = (Inr agg, d') \<longrightarrow>
      (\<exists>rows. decoded = Inr rows \<and> total_rows agg = length rows)
      \<and> inserted agg + skipped agg + errors agg = total_rows agg)
   \<and> (fst (rowLoop h w i [rawRow] cnt d) = cnt\<lparr>insertedCount := insertedCount cnt + 1\<rparr>
      \<or> fst (rowLoop h w i [rawRow] cnt d) = cnt\<lparr>skippedCount := skippedCount cnt + 1\<rparr>
      \<or> fst (rowLoop h w i [rawRow] cnt d) = cnt\<lparr>errorCount := errorCount cnt + 1\<rparr>)"
proof (intro conjI impI)
  assume run: "processKamisFile h w failure decoded d = (Inr agg, d')"
  then obtain rows where rows: "decoded = Inr rows"
    by (cases decoded) (simp_all add: processKamisFile_def)
  from processKamisFile_run [OF run [unfolded rows]] obtain cnt' d1 where loop:
    "rowLoop h w 0 rows \<lparr>insertedCount = 0, skippedCount = 0, errorCount = 0\<rparr> (beginTx d)
       = (cnt', d1)"
    and ok: "failure = None \<longrightarrow>
           Inr agg = Inr \<lparr>inserted = insertedCount cnt', skipped = skippedCount cnt',
                       errors = errorCount cnt', total_rows = length rows\<rparr>
           \<and> d' = (if tx_aborted d1 then rollbackTx d1 else commitTx d1)"
    and failed: "\<forall>e. failure = Some e \<longrightarrow> Inr agg = Inl e \<and> d' = rollbackTx d1"
    by blast
  from failed have nofail: "failure = None" by (cases failure) auto
  with ok
  have agg: "agg = \<lparr>inserted = insertedCount cnt', skipped = skippedCount cnt',
                    errors = errorCount cnt', total_rows = length rows\<rparr>"
    by simp
  from rows agg show "\<exists>rows. decoded = Inr rows \<and> total_rows agg = length rows" by simp
  from rowLoop_counts [OF loop] agg
  show "inserted agg + skipped agg + errors agg = total_rows agg" by simp
next
  show "fst (rowLoop h w i [rawRow] cnt d) = cnt\<lparr>insertedCount := insertedCount cnt + 1\<rparr>
      \<or> fst (rowLoop h w i [rawRow] cnt d) = cnt\<lparr>skippedCount := skippedCount cnt + 1\<rparr>
      \<or> fst (rowLoop h w i [rawRow] cnt d) = cnt\<lparr>errorCount := errorCount cnt + 1\<rparr>"
    by (rule rowLoop_one_counter)
qed

text \<open>
  A file of three rows, one inserted, one failing on its date and one without region.
\<close>

theorem processKamisFile_counters_partition_witness:
  "fst (processKamisFile eatHost quiet None (Inr [maizeRow1, badDateRow, noRegionRow]) seededDb)
     = Inr \<lparr>inserted = 1, skipped = 1, errors = 1, total_rows = 3\<rparr>
   \<and> (1::nat) + 1 + 1 = 3"
proof -
  define run where
    "run = processKamisFile eatHost quiet None (Inr [maizeRow1, badDateRow, noRegionRow]) seededDb"
  define agg where "agg = \<lparr>inserted = 1, skipped = 1, errors = 1, total_rows = 3\<rparr>"
  have res: "fst run = Inr agg"
    unfolding run_def agg_def by code_simp
  have "run = (Inr agg, snd run)"
    by (simp add: prod_eq_iff res)
  then have hyp: "processKamisFile eatHost quiet None (Inr [maizeRow1, badDateRow, noRegionRow])
                    seededDb = (Inr agg, snd run)"
    by (simp only: run_def)
  from processKamisFile_counters_partition [THEN conjunct1, THEN mp, OF hyp]
  have "inserted agg + skipped agg + errors agg = total_rows agg" by (rule conjunct2)
  then have "(1::nat) + 1 + 1 = 3" by (simp add: agg_def)
  with res show ?thesis by (simp only: run_def agg_def simp_thms)
qed

subsection \<open>Relations kept by every statement\<close>

lemma issue_cases:
  assumes "issue outside statement d = (res, d')"
  obtains (aborted) "tx_aborted d" and "res = Inl TransactionAborted" and "d' = d"
        | (refused) f where "\<not> tx_aborted d" and "outside d = Inl f" and "res = Inl f"
            and "d' = d\<lparr>tx_aborted := True\<rparr>"
        | (runs) d1 where "\<not> tx_aborted d" and "outside d = Inr d1"
            and "statement (ownWrites d d1) = (res, d')"
  using assms
  by (cases "tx_aborted d"; cases "outside d") (auto simp: issue_def serverRefuses_def)

lemma tx_relD: "tx_rel m R \<Longrightarrow> m d = (res, d') \<Longrightarrow> R d d'"
  by (simp add: tx_rel_def)

lemma tx_rel_ret: "reflp R \<Longrightarrow> tx_rel (ret a) R"
  by (simp add: tx_rel_def ret_def reflpD)

lemma tx_rel_andThen:
  assumes "transp R" and "tx_rel m R" and "\<And>a. tx_rel (f a) R"
  shows "tx_rel (andThen m f) R"
  unfolding tx_rel_def
proof (intro allI impI)
  fix d res d'
  assume "andThen m f d = (res, d')"
  then show "R d d'"
  proof (cases rule: andThen_cases)
    case (fails e)
    with assms(2) show ?thesis by (simp add: tx_rel_def)
  next
    case (goes_on a d1)
    from assms(2) goes_on(1) have "R d d1" by (rule tx_relD)
    moreover from assms(3) goes_on(2) have "R d1 d'" by (rule tx_relD)
    ultimately show ?thesis using assms(1) by (rule transpD [rotated])
  qed
qed

lemma tx_rel_serverRefuses: "abort_rel R \<Longrightarrow> tx_rel (serverRefuses f) R"
  by (simp add: tx_rel_def serverRefuses_def abort_rel_def)

lemma tx_rel_clientRefuses: "reflp R \<Longrightarrow> tx_rel (clientRefuses f) R"
  by (simp add: tx_rel_def clientRefuses_def reflpD)

lemma tx_rel_issue:
  assumes "reflp R" and "transp R" and "abort_rel R" and "world_rel w R" and "tx_rel m R"
  shows "tx_rel (issue (w s) m) R"
  unfolding tx_rel_def
proof (intro allI impI)
  fix d res d'
  assume "issue (w s) m d = (res, d')"
  then show "R d d'"
  proof (cases rule: issue_cases)
    case aborted
    with assms(1) show ?thesis by (simp add: reflpD)
  next
    case (refused f)
    with assms(3) show ?thesis by (simp add: abort_rel_def)
  next
    case (runs d1)
    from assms(4) runs(2) have "R d (ownWrites d d1)" by (auto simp: world_rel_def)
    moreover from assms(5) runs(3) have "R (ownWrites d d1) d'" by (rule tx_relD)
    ultimately show ?thesis using assms(2) by (rule transpD [rotated])
  qed
qed

lemma tx_rel_lookup:
  assumes "reflp R" and "abort_rel R"
  shows "tx_rel (lookup query) R"
  using assms
  by (auto simp: tx_rel_def lookup_def serverRefuses_def abort_rel_def reflpD split: sum.splits)

lemma tx_rel_finds:
  assumes "reflp R" and "abort_rel R"
  shows "tx_rel (crops_findFirst n) R" and "tx_rel (regions_findFirst n) R"
    and "tx_rel (markets_findFirst n rid) R"
    and "tx_rel (price_entries_findFirst cid rid mid lo hi) R"
proof -
  show "tx_rel (crops_findFirst n) R" "tx_rel (regions_findFirst n) R"
    "tx_rel (markets_findFirst n rid) R"
    unfolding crops_findFirst_def regions_findFirst_def markets_findFirst_def
    by (rule tx_rel_lookup [OF assms])+
  show "tx_rel (price_entries_findFirst cid rid mid lo hi) R"
    using assms(1)
    by (auto simp: tx_rel_def price_entries_findFirst_def clientRefuses_def reflpD
        split: option.splits)
qed

lemma tx_rel_resolveCrop:
  assumes R: "reflp R" "transp R" "abort_rel R" and w: "world_rel w R"
    and create: "tx_rel (crops_create cropName (categorizeCrop cropName)
                    (determineUnit (categorizeCrop cropName) cropName)) R"
  shows "tx_rel (resolveCrop w cropName) R"
  unfolding resolveCrop_def Let_def
proof (rule tx_rel_andThen [OF R(2)])
  show "tx_rel (issue (w CropFind) (crops_findFirst cropName)) R"
    by (rule tx_rel_issue [OF R w tx_rel_finds(1) [OF R(1,3)]])
next
  fix cropRes :: "crops_row option"
  have "tx_rel (andThen (issue (w CropCreate)
                  (crops_create cropName (categorizeCrop cropName)
                     (determineUnit (categorizeCrop cropName) cropName)))
                (\<lambda>newCrop. ret (c_id newCrop))) R"
    by (rule tx_rel_andThen [OF R(2) tx_rel_issue [OF R w create] tx_rel_ret [OF R(1)]])
  then show "tx_rel (case cropRes of
                      None \<Rightarrow> andThen (issue (w CropCreate)
                                (crops_create cropName (categorizeCrop cropName)
                                   (determineUnit (categorizeCrop cropName) cropName)))
                              (\<lambda>newCrop. ret (c_id newCrop))
                    | Some found \<Rightarrow> ret (c_id found)) R"
    by (cases cropRes) (simp_all add: tx_rel_ret [OF R(1)])
qed

lemma tx_rel_resolveRegion:
  assumes R: "reflp R" "transp R" "abort_rel R" and w: "world_rel w R"
    and create: "tx_rel (regions_create regionName (regionCode regionName)) R"
  shows "tx_rel (resolveRegion w regionName) R"
  unfolding resolveRegion_def
proof (rule tx_rel_andThen [OF R(2)])
  show "tx_rel (issue (w RegionFind) (regions_findFirst regionName)) R"
    by (rule tx_rel_issue [OF R w tx_rel_finds(2) [OF R(1,3)]])
next
  fix regionRes :: "regions_row option"
  have "tx_rel (andThen (issue (w RegionCreate)
                  (regions_create regionName (regionCode regionName)))
                (\<lambda>newRegion. ret (r_id newRegion))) R"
    by (rule tx_rel_andThen [OF R(2) tx_rel_issue [OF R w create] tx_rel_ret [OF R(1)]])
  then show "tx_rel (case regionRes of
                      None \<Rightarrow> andThen (issue (w RegionCreate)
                                (regions_create regionName (regionCode regionName)))
                              (\<lambda>newRegion. ret (r_id newRegion))
                    | Some found \<Rightarrow> ret (r_id found)) R"
    by (cases regionRes) (simp_all add: tx_rel_ret [OF R(1)])
qed

lemma tx_rel_resolveMarket:
  assumes R: "reflp R" "transp R" "abort_rel R" and w: "world_rel w R"
    and create: "tx_rel (markets_create marketName regionId) R"
  shows "tx_rel (resolveMarket w marketName regionId) R"
proof (cases "marketName = []")
  case True
  then show ?thesis by (simp add: resolveMarket_def tx_rel_ret [OF R(1)])
next
  case False
  have "tx_rel (andThen (issue (w MarketFind) (markets_findFirst marketName regionId))
          (\<lambda>marketRes. case marketRes of
              None \<Rightarrow> andThen (issue (w MarketCreate) (markets_create marketName regionId))
                        (\<lambda>newMarket. ret (Some (m_id newMarket)))
            | Some found \<Rightarrow> ret (Some (m_id found)))) R"
  proof (rule tx_rel_andThen [OF R(2)])
    show "tx_rel (issue (w MarketFind) (markets_findFirst marketName regionId)) R"
      by (rule tx_rel_issue [OF R w tx_rel_finds(3) [OF R(1,3)]])
  next
    fix marketRes :: "markets_row option"
    have "tx_rel (andThen (issue (w MarketCreate) (markets_create marketName regionId))
                  (\<lambda>newMarket. ret (Some (m_id newMarket)))) R"
      by (rule tx_rel_andThen [OF R(2) tx_rel_issue [OF R w create] tx_rel_ret [OF R(1)]])
    then show "tx_rel (case marketRes of
                None \<Rightarrow> andThen (issue (w MarketCreate) (markets_create marketName regionId))
                          (\<lambda>newMarket. ret (Some (m_id newMarket)))
              | Some found \<Rightarrow> ret (Some (m_id found))) R"
      by (cases marketRes) (simp_all add: tx_rel_ret [OF R(1)])
  qed
  with False show ?thesis by (simp add: resolveMarket_def)
qed

text \<open>
  A relation that is reflexive and transitive, that the outside world keeps, that holds when
  the transaction turns aborted and that each of the four creates keeps as the row loop calls
  them, is kept by a whole row.
\<close>

lemma tx_rel_tryRow:
  assumes R: "reflp R" "transp R" "abort_rel R" and w: "world_rel w R"
    and crop: "\<And>n. tx_rel (crops_create n (categorizeCrop n)
                         (determineUnit (categorizeCrop n) n)) R"
    and region: "\<And>n. tx_rel (regions_create n (regionCode n)) R"
    and market: "\<And>n rid. tx_rel (markets_create n rid) R"
    and fact: "\<And>cid rid mid price date.
                 tx_rel (price_entries_create cid rid mid price date ''kamis'' True ''kg'') R"
  shows "tx_rel (tryRow h w now rawRow) R"
proof -
  let ?row = "normalizeRow rawRow"
  let ?date = "entryDate_of h now ?row"
  have tail: "tx_rel (case dupCheck of
                None \<Rightarrow> andThen (issue (w PriceCreate)
                          (price_entries_create cropId regionId marketId (priceVal_of ?row) ?date
                             ''kamis'' True ''kg'')) (\<lambda>created. ret Inserted)
              | Some dup \<Rightarrow> ret Skipped) R"
    for dupCheck :: "price_entries_row option" and cropId regionId marketId
  proof (cases dupCheck)
    case None
    have "tx_rel (andThen (issue (w PriceCreate)
                    (price_entries_create cropId regionId marketId (priceVal_of ?row) ?date
                       ''kamis'' True ''kg'')) (\<lambda>created. ret Inserted)) R"
      by (rule tx_rel_andThen [OF R(2) tx_rel_issue [OF R w fact] tx_rel_ret [OF R(1)]])
    with None show ?thesis by simp
  next
    case (Some dup)
    then show ?thesis by (simp add: tx_rel_ret [OF R(1)])
  qed
  have dup: "tx_rel (andThen (issue (w DupFind)
                (price_entries_findFirst cropId regionId marketId
                   (map_option (startOfDay h) ?date) (map_option (endOfDay h) ?date)))
              (\<lambda>dupCheck. case dupCheck of
                  None \<Rightarrow> andThen (issue (w PriceCreate)
                            (price_entries_create cropId regionId marketId (priceVal_of ?row)
                               ?date ''kamis'' True ''kg'')) (\<lambda>created. ret Inserted)
                | Some dup \<Rightarrow> ret Skipped)) R"
    for cropId regionId marketId
    by (rule tx_rel_andThen [OF R(2) tx_rel_issue [OF R w tx_rel_finds(4) [OF R(1,3)]] tail])
  have chain: "tx_rel
     (andThen (resolveCrop w (cropName_of ?row)) (\<lambda>cropId.
      andThen (resolveRegion w (regionName_of ?row)) (\<lambda>regionId.
      andThen (resolveMarket w (marketName_of ?row) regionId) (\<lambda>marketId.
      andThen (issue (w DupFind)
                (price_entries_findFirst cropId regionId marketId
                   (map_option (startOfDay h) ?date) (map_option (endOfDay h) ?date)))
              (\<lambda>dupCheck. case dupCheck of
                  None \<Rightarrow> andThen (issue (w PriceCreate)
                            (price_entries_create cropId regionId marketId (priceVal_of ?row)
                               ?date ''kamis'' True ''kg'')) (\<lambda>created. ret Inserted)
                | Some dup \<Rightarrow> ret Skipped))))) R"
    by (intro tx_rel_andThen [OF R(2)] tx_rel_resolveCrop [OF R w crop]
        tx_rel_resolveRegion [OF R w region] tx_rel_resolveMarket [OF R w market] dup)
  show ?thesis
  proof (cases "cropName_of ?row = [] \<or> regionName_of ?row = [] \<or> isNaN (priceVal_of ?row)")
    case True
    then show ?thesis by (simp add: tryRow_def Let_def tx_rel_ret [OF R(1)])
  next
    case False
    with chain show ?thesis by (simp add: tryRow_def Let_def)
  qed
qed

lemma rowLoop_rel:
  assumes R: "reflp R" "transp R"
    and row: "\<And>i rawRow. tx_rel (tryRow h (w i) (clock h i) rawRow) R"
  shows "rowLoop h w i rows cnt d = (cnt', d') \<Longrightarrow> R d d'"
proof (induction rows arbitrary: i cnt d)
  case Nil
  with R(1) show ?case by (simp add: reflpD)
next
  case (Cons rawRow rest)
  obtain res d1 where step: "tryRow h (w i) (clock h i) rawRow d = (res, d1)"
    by (cases "tryRow h (w i) (clock h i) rawRow d")
  from row step have first: "R d d1" by (rule tx_relD)
  from Cons.prems step obtain cnt1 where "rowLoop h w (Suc i) rest cnt1 d1 = (cnt', d')"
    by (cases res; cases "projr res") auto
  then have "R d1 d'" by (rule Cons.IH)
  with first show ?case using R(2) by (rule transpD [rotated 1])
qed

subsection \<open>What the engine adds to the crops and the facts\<close>

lemma grown_by_engine_refl: "reflp grown_by_engine"
  by (rule reflpI) (simp add: grown_by_engine_def)

lemma grown_by_engine_trans: "transp grown_by_engine"
proof (rule transpI)
  fix a b c
  assume "grown_by_engine a b" and "grown_by_engine b c"
  then obtain ps cs ps' cs' where
    "price_entries b = price_entries a" "crops b = crops a"
    "price_entries c = price_entries b" "crops c = crops b"
    "pending_price_entries b = pending_price_entries a @ ps" "list_all kamisFact ps"
    "pending_crops b = pending_crops a @ cs" "list_all classifiedCrop cs"
    "pending_price_entries c = pending_price_entries b @ ps'" "list_all kamisFact ps'"
    "pending_crops c = pending_crops b @ cs'" "list_all classifiedCrop cs'"
    unfolding grown_by_engine_def by blast
  then have "price_entries c = price_entries a" "crops c = crops a"
    "pending_price_entries c = pending_price_entries a @ (ps @ ps')"
    "list_all kamisFact (ps @ ps')"
    "pending_crops c = pending_crops a @ (cs @ cs')" "list_all classifiedCrop (cs @ cs')"
    by simp_all
  then show "grown_by_engine a c" unfolding grown_by_engine_def by blast
qed

lemma grown_by_engine_abort: "abort_rel grown_by_engine"
  by (simp add: abort_rel_def grown_by_engine_def)

lemma grown_by_engine_world:
  "leaves_crops_and_facts w \<Longrightarrow> world_rel w grown_by_engine"
  by (simp add: leaves_crops_and_facts_def world_rel_def grown_by_engine_def ownWrites_def)

lemma grown_by_engine_crops_create:
  "tx_rel (crops_create n (categorizeCrop n) (determineUnit (categorizeCrop n) n))
     grown_by_engine"
  by (simp add: tx_rel_def crops_create_def serverRefuses_def grown_by_engine_def
      classifiedCrop_def Let_def)

lemma grown_by_engine_regions_create: "tx_rel (regions_create n code) grown_by_engine"
  by (simp add: tx_rel_def regions_create_def serverRefuses_def grown_by_engine_def Let_def)

lemma grown_by_engine_markets_create: "tx_rel (markets_create n rid) grown_by_engine"
  by (simp add: tx_rel_def markets_create_def serverRefuses_def grown_by_engine_def Let_def)

lemma grown_by_engine_price_entries_create:
  "tx_rel (price_entries_create cid rid mid price date ''kamis'' True ''kg'') grown_by_engine"
  by (auto simp: tx_rel_def price_entries_create_def serverRefuses_def clientRefuses_def
      grown_by_engine_def kamisFact_def Let_def split: option.splits jsnum.splits)

lemma grown_by_engine_tryRow:
  "leaves_crops_and_facts w \<Longrightarrow> tx_rel (tryRow h w now rawRow) grown_by_engine"
  by (rule tx_rel_tryRow [OF grown_by_engine_refl grown_by_engine_trans grown_by_engine_abort
        grown_by_engine_world grown_by_engine_crops_create grown_by_engine_regions_create
        grown_by_engine_markets_create grown_by_engine_price_entries_create])

lemma grown_by_engine_run:
  assumes world: "\<forall>i. leaves_crops_and_facts (w i)"
    and run: "processKamisFile h w failure decoded d = (res, d')"
  shows "(\<exists>ps. price_entries d' = price_entries d @ ps \<and> list_all kamisFact ps)
         \<and> (\<exists>cs. crops d' = crops d @ cs \<and> list_all classifiedCrop cs)"
proof (cases decoded)
  case (Inl err)
  with run have "d' = d" by (simp add: processKamisFile_def)
  then show ?thesis by simp
next
  case (Inr rows)
  from processKamisFile_run [OF run [unfolded Inr]] obtain cnt d1 where loop:
    "rowLoop h w 0 rows \<lparr>insertedCount = 0, skippedCount = 0, errorCount = 0\<rparr> (beginTx d)
       = (cnt, d1)"
    and ok: "failure = None \<longrightarrow>
           res = Inr \<lparr>inserted = insertedCount cnt, skipped = skippedCount cnt,
                       errors = errorCount cnt, total_rows = length rows\<rparr>
           \<and> d' = (if tx_aborted d1 then rollbackTx d1 else commitTx d1)"
    and failed: "\<forall>e. failure = Some e \<longrightarrow> res = Inl e \<and> d' = rollbackTx d1"
    by blast
  have "grown_by_engine (beginTx d) d1"
    using grown_by_engine_refl grown_by_engine_trans
  proof (rule rowLoop_rel)
    fix i rawRow
    from world have "leaves_crops_and_facts (w i)" by simp
    then show "tx_rel (tryRow h (w i) (clock h i) rawRow) grown_by_engine"
      by (rule grown_by_engine_tryRow)
  qed (rule loop)
  then obtain ps cs where grown:
    "price_entries d1 = price_entries d" "crops d1 = crops d"
    "pending_price_entries d1 = ps" "list_all kamisFact ps"
    "pending_crops d1 = cs" "list_all classifiedCrop cs"
    by (auto simp: grown_by_engine_def beginTx_def)
  from ok failed have "d' = rollbackTx d1 \<or> d' = commitTx d1"
    by (cases failure) auto
  then show ?thesis
  proof
    assume "d' = rollbackTx d1"
    with grown show ?thesis by (simp add: rollbackTx_def)
  next
    assume "d' = commitTx d1"
    with grown show ?thesis
      by (simp add: commitTx_def seen_price_entries_def seen_crops_def)
  qed
qed

text \<open>
  Claim C10. Whatever the file, the host and the failures of the storage layer, as long as
  no crop and no price entry comes from outside the batch: the price entries that
  \<open>processKamisFile\<close> leaves behind are the old ones followed by new ones that all have
  unit kg, source kamis and the verified flag; the crops are the old ones followed by new
  ones whose unit is the one \<open>determineUnit\<close> gives for their name. The per-crop unit goes
  to the crop row only.
\<close>

theorem facts_created_are_kamis_kg:
  assumes world: "\<forall>i. leaves_crops_and_facts (w i)"
    and run: "processKamisFile h w failure decoded d = (res, d')"
  shows "(\<exists>ps. price_entries d' = price_entries d @ ps
              \<and> (\<forall>p\<in>set ps. pe_unit p = ''kg'' \<and> pe_source p = ''kamis'' \<and> pe_is_verified p))
         \<and> (\<exists>cs. crops d' = crops d @ cs
              \<and> (\<forall>c\<in>set cs. c_unit c = determineUnit (categorizeCrop (c_name c)) (c_name c)))"
  using grown_by_engine_run [OF world run]
  by (auto simp: list_all_iff kamisFact_def classifiedCrop_def)

lemma quiet_leaves_crops_and_facts: "leaves_crops_and_facts (quiet i)"
  by (simp add: leaves_crops_and_facts_def quiet_def quiet_row_def)

text \<open>
  A row for fresh milk creates a crop sold by the litre and a fact recorded in kg.
\<close>

theorem facts_created_are_kamis_kg_witness:
  "(\<forall>i. leaves_crops_and_facts (quiet i))
   \<and> map c_unit (crops (snd (processKamisFile eatHost quiet None (Inr [milkRow]) emptyDb)))
       = [''litre'']
   \<and> map pe_unit (price_entries (snd (processKamisFile eatHost quiet None (Inr [milkRow]) emptyDb)))
       = [''kg'']
   \<and> (\<exists>ps. price_entries (snd (processKamisFile eatHost quiet None (Inr [milkRow]) emptyDb))
              = price_entries emptyDb @ ps
            \<and> (\<forall>p\<in>set ps. pe_unit p = ''kg'' \<and> pe_source p = ''kamis'' \<and> pe_is_verified p))"
proof -
  define run where "run = processKamisFile eatHost quiet None (Inr [milkRow]) emptyDb"
  have hyp: "\<forall>i. leaves_crops_and_facts (quiet i)"
    by (simp add: quiet_leaves_crops_and_facts)
  have eq: "processKamisFile eatHost quiet None (Inr [milkRow]) emptyDb = (fst run, snd run)"
    by (simp add: run_def)
  have units: "map c_unit (crops (snd run)) = [''litre'']"
    "map pe_unit (price_entries (snd run)) = [''kg'']"
    unfolding run_def by code_simp+
  from facts_created_are_kamis_kg [OF hyp eq]
  have "\<exists>ps. price_entries (snd run) = price_entries emptyDb @ ps
            \<and> (\<forall>p\<in>set ps. pe_unit p = ''kg'' \<and> pe_source p = ''kamis'' \<and> pe_is_verified p)"
    by (rule conjunct1)
  with hyp units show ?thesis unfolding run_def by blast
qed

subsection \<open>Validation\<close>


lemma tryRow_valid:
  assumes "cropName_of (normalizeRow rawRow) \<noteq> []" and "regionName_of (normalizeRow rawRow) \<noteq> []"
    and "priceVal_of (normalizeRow rawRow) \<noteq> NaN"
  shows "tryRow h w now rawRow =
     andThen (resolveCrop w (cropName_of (normalizeRow rawRow))) (\<lambda>cropId.
     andThen (resolveRegion w (regionName_of (normalizeRow rawRow))) (\<lambda>regionId.
     andThen (resolveMarket w (marketName_of (normalizeRow rawRow)) regionId) (\<lambda>marketId.
     andThen (issue (w DupFind)
                (price_entries_findFirst cropId regionId marketId
                   (map_option (startOfDay h) (entryDate_of h now (normalizeRow rawRow)))
                   (map_option (endOfDay h) (entryDate_of h now (normalizeRow rawRow)))))
        (\<lambda>dupCheck.
           case dupCheck of
             None \<Rightarrow>
               andThen (issue (w PriceCreate)
                          (price_entries_create cropId regionId marketId
                             (priceVal_of (normalizeRow rawRow))
                             (entryDate_of h now (normalizeRow rawRow)) ''kamis'' True ''kg''))
                 (\<lambda>created. ret Inserted)
           | Some dup \<Rightarrow> ret Skipped))))"
  using assms by (simp add: tryRow_def Let_def isNaN_def)


subsection \<open>Names as patterns\<close>

lemma of_char_less_256: "(of_char c :: nat) < 256"
proof -
  have "of_char (char_of (of_char c :: nat)) = (of_char c :: nat) mod 256"
    by (rule of_char_of)
  then have "(of_char c :: nat) = of_char c mod 256" by simp
  then show ?thesis by (metis mod_less_divisor zero_less_numeral)
qed









lemma ilike_text_case: "insensitiveEq s1 s2 \<Longrightarrow> ilike s1 n = ilike s2 n"
  by (simp add: ilike_def insensitiveEq_def)





lemma findFirstLike_Some:
  "findFirstLike col n rows = Inr (Some r) \<Longrightarrow> r \<in> set rows \<and> ilike (col r) n = LIKE_TRUE"
  by (induction rows) (auto split: like_result.splits)



subsection \<open>A row when nothing interferes\<close>

lemma ownWrites_self: "ownWrites d d = d"
  by (simp add: ownWrites_def)

lemma issue_quiet: "\<not> tx_aborted d \<Longrightarrow> issue (quiet_row s) m d = m d"
  by (simp add: issue_def quiet_row_def ownWrites_self)

lemma issue_aborted: "tx_aborted d \<Longrightarrow> issue outside m d = (Inl TransactionAborted, d)"
  by (simp add: issue_def)

lemma crops_findFirst_found:
  "findFirstLike c_name n (seen_crops d) = Inr res \<Longrightarrow> crops_findFirst n d = (Inr res, d)"
  by (simp add: crops_findFirst_def lookup_def)

lemma regions_findFirst_found:
  "findFirstLike r_name n (seen_regions d) = Inr res \<Longrightarrow> regions_findFirst n d = (Inr res, d)"
  by (simp add: regions_findFirst_def lookup_def)

lemma markets_findFirst_found:
  "findFirstLike m_name n (filter (\<lambda>m. m_region_id m = rid) (seen_markets d)) = Inr res
   \<Longrightarrow> markets_findFirst n rid d = (Inr res, d)"
  by (simp add: markets_findFirst_def lookup_def)

lemma resolveCrop_quiet_found:
  assumes "\<not> tx_aborted d" and "findFirstLike c_name n (seen_crops d) = Inr (Some found)"
  shows "resolveCrop quiet_row n d = (Inr (c_id found), d)"
  using assms
  by (simp add: resolveCrop_def issue_quiet andThen_def crops_findFirst_found ret_def)

lemma resolveRegion_quiet_found:
  assumes "\<not> tx_aborted d" and "findFirstLike r_name n (seen_regions d) = Inr (Some found)"
  shows "resolveRegion quiet_row n d = (Inr (r_id found), d)"
  using assms
  by (simp add: resolveRegion_def issue_quiet andThen_def regions_findFirst_found ret_def)

lemma resolveMarket_quiet_empty: "resolveMarket quiet_row [] rid d = (Inr None, d)"
  by (simp add: resolveMarket_def ret_def)

lemma resolveMarket_quiet_found:
  assumes "\<not> tx_aborted d" and "n \<noteq> []"
    and "findFirstLike m_name n (filter (\<lambda>m. m_region_id m = rid) (seen_markets d))
         = Inr (Some found)"
  shows "resolveMarket quiet_row n rid d = (Inr (Some (m_id found)), d)"
  using assms
  by (simp add: resolveMarket_def issue_quiet andThen_def markets_findFirst_found ret_def)

lemma foundRefs_cases:
  assumes "foundRefs row d = Some (cid, rid, mid)"
  obtains c r where "findFirstLike c_name (cropName_of row) (seen_crops d) = Inr (Some c)"
    and "cid = c_id c"
    and "findFirstLike r_name (regionName_of row) (seen_regions d) = Inr (Some r)"
    and "rid = r_id r"
    and "(marketName_of row = [] \<and> mid = None)
         \<or> (marketName_of row \<noteq> []
            \<and> (\<exists>m. findFirstLike m_name (marketName_of row)
                       (filter (\<lambda>m. m_region_id m = rid) (seen_markets d)) = Inr (Some m)
                     \<and> mid = Some (m_id m)))"
  using assms unfolding foundRefs_def
  by (auto split: sum.splits option.splits if_splits)

lemma resolve_found:
  assumes "\<not> tx_aborted d" and "foundRefs row d = Some (cid, rid, mid)"
  shows "resolveCrop quiet_row (cropName_of row) d = (Inr cid, d)"
    and "resolveRegion quiet_row (regionName_of row) d = (Inr rid, d)"
    and "resolveMarket quiet_row (marketName_of row) rid d = (Inr mid, d)"
proof -
  from assms(2) obtain c r where
    c: "findFirstLike c_name (cropName_of row) (seen_crops d) = Inr (Some c)" "cid = c_id c"
    and r: "findFirstLike r_name (regionName_of row) (seen_regions d) = Inr (Some r)"
      "rid = r_id r"
    and m: "(marketName_of row = [] \<and> mid = None)
         \<or> (marketName_of row \<noteq> []
            \<and> (\<exists>m. findFirstLike m_name (marketName_of row)
                       (filter (\<lambda>m. m_region_id m = rid) (seen_markets d)) = Inr (Some m)
                     \<and> mid = Some (m_id m)))"
    by (rule foundRefs_cases)
  from c show "resolveCrop quiet_row (cropName_of row) d = (Inr cid, d)"
    by (simp add: resolveCrop_quiet_found [OF assms(1)])
  from r show "resolveRegion quiet_row (regionName_of row) d = (Inr rid, d)"
    by (simp add: resolveRegion_quiet_found [OF assms(1)])
  from m show "resolveMarket quiet_row (marketName_of row) rid d = (Inr mid, d)"
    by (auto simp: resolveMarket_quiet_empty resolveMarket_quiet_found [OF assms(1)])
qed

lemma dupFind_run:
  "price_entries_findFirst cid rid mid (Some (startOfDay h t)) (Some (endOfDay h t)) d
   = (Inr (duplicateOf h t cid rid mid d), d)"
  by (simp add: price_entries_findFirst_def duplicateOf_def)


lemma dupQuery_quiet:
  assumes "\<not> tx_aborted d" and "entryDate_of h now row = Some t"
  shows "issue (quiet_row DupFind) (dupQuery h now row cid rid mid) d
         = (Inr (duplicateOf h t cid rid mid d), d)"
  using assms by (simp add: issue_quiet price_entries_findFirst_def duplicateOf_def)

lemma dupQuery_quiet_invalid:
  assumes "\<not> tx_aborted d" and "entryDate_of h now row = None"
  shows "issue (quiet_row DupFind) (dupQuery h now row cid rid mid) d
         = (Inl InvalidDateArgument, d)"
  using assms by (simp add: issue_quiet price_entries_findFirst_def clientRefuses_def)

lemma tryRow_found:
  assumes opn: "\<not> tx_aborted d" and valid: "\<not> rejected (normalizeRow rawRow)"
    and refs: "foundRefs (normalizeRow rawRow) d = Some (cid, rid, mid)"
  shows "tryRow h quiet_row now rawRow d =
     andThen (issue (quiet_row DupFind) (dupQuery h now (normalizeRow rawRow) cid rid mid))
       (\<lambda>dupCheck. case dupCheck of
           None \<Rightarrow> andThen (issue (quiet_row PriceCreate)
                             (factInsert h now (normalizeRow rawRow) cid rid mid))
                     (\<lambda>created. ret Inserted)
         | Some dup \<Rightarrow> ret Skipped) d"
proof -
  from valid have v: "cropName_of (normalizeRow rawRow) \<noteq> []"
    "regionName_of (normalizeRow rawRow) \<noteq> []" "priceVal_of (normalizeRow rawRow) \<noteq> NaN"
    by (simp_all add: rejected_def isNaN_def)
  note found = resolve_found [OF opn refs]
  show ?thesis
    by (simp add: tryRow_valid [OF v] andThen_def found)
qed





lemma tryRow_overflow:
  assumes opn: "\<not> tx_aborted d" and valid: "\<not> rejected (normalizeRow rawRow)"
    and refs: "foundRefs (normalizeRow rawRow) d = Some (cid, rid, mid)"
    and date: "entryDate_of h now (normalizeRow rawRow) = Some t"
    and dup: "duplicateOf h t cid rid mid d = None"
    and price: "priceVal_of (normalizeRow rawRow) = Finite q"
    and fits: "decimal_10_2 q = None"
  shows "tryRow h quiet_row now rawRow d = (Inl NumericOverflow, d\<lparr>tx_aborted := True\<rparr>)"
  by (simp add: tryRow_found [OF opn valid refs] andThen_def
      issue_quiet [OF opn] date dupFind_run dup price_entries_create_def price fits serverRefuses_def)

subsection \<open>Only the last statement of a row touches the facts\<close>









subsection \<open>Rows that validation rejects, and rows it does not\<close>




subsection \<open>Rows without a date\<close>






subsection \<open>A create that hits a unique index\<close>

lemma resolveCrop_create_fails:
  assumes "issue (w CropFind) (crops_findFirst cn) d = (Inr None, d1)"
    and "issue (w CropCreate)
           (crops_create cn (categorizeCrop cn) (determineUnit (categorizeCrop cn) cn)) d1
         = (Inl f, d2)"
  shows "resolveCrop w cn d = (Inl f, d2)"
  using assms by (simp add: resolveCrop_def andThen_def Let_def)

lemma resolveRegion_create_fails:
  assumes "issue (w RegionFind) (regions_findFirst rn) d = (Inr None, d1)"
    and "issue (w RegionCreate) (regions_create rn (regionCode rn)) d1 = (Inl f, d2)"
  shows "resolveRegion w rn d = (Inl f, d2)"
  using assms by (simp add: resolveRegion_def andThen_def)

lemma resolveMarket_create_fails:
  assumes "mn \<noteq> []"
    and "issue (w MarketFind) (markets_findFirst mn rid) d = (Inr None, d1)"
    and "issue (w MarketCreate) (markets_create mn rid) d1 = (Inl f, d2)"
  shows "resolveMarket w mn rid d = (Inl f, d2)"
  using assms by (simp add: resolveMarket_def andThen_def)

text \<open>
  Claim C8, as amended. The resolvers do not catch a failing create. When a lookup finds
  nothing and the create that follows throws (a unique-constraint violation because another
  batch has just created the row, or any other fault), the fault ends the row: none of its
  later statements runs, the loop adds one to \<open>errorCount\<close> and goes on with the next
  row. This holds for the crop, the region and the market.
\<close>

theorem create_fault_fails_the_row:
  assumes valid: "cropName_of (normalizeRow rawRow) \<noteq> []"
      "regionName_of (normalizeRow rawRow) \<noteq> []" "priceVal_of (normalizeRow rawRow) \<noteq> NaN"
  shows
    "(issue (w CropFind) (crops_findFirst (cropName_of (normalizeRow rawRow))) d = (Inr None, da)
      \<and> issue (w CropCreate)
          (crops_create (cropName_of (normalizeRow rawRow))
             (categorizeCrop (cropName_of (normalizeRow rawRow)))
             (determineUnit (categorizeCrop (cropName_of (normalizeRow rawRow)))
                (cropName_of (normalizeRow rawRow)))) da = (Inl f, dc)
      \<longrightarrow> tryRow h w now rawRow d = (Inl f, dc))
     \<and> (resolveCrop w (cropName_of (normalizeRow rawRow)) d = (Inr cropId, da)
        \<and> issue (w RegionFind) (regions_findFirst (regionName_of (normalizeRow rawRow))) da
            = (Inr None, dc)
        \<and> issue (w RegionCreate)
            (regions_create (regionName_of (normalizeRow rawRow))
               (regionCode (regionName_of (normalizeRow rawRow)))) dc = (Inl f, de)
      \<longrightarrow> tryRow h w now rawRow d = (Inl f, de))
     \<and> (marketName_of (normalizeRow rawRow) \<noteq> []
        \<and> resolveCrop w (cropName_of (normalizeRow rawRow)) d = (Inr cropId, da)
        \<and> resolveRegion w (regionName_of (normalizeRow rawRow)) da = (Inr regionId, dc)
        \<and> issue (w MarketFind)
            (markets_findFirst (marketName_of (normalizeRow rawRow)) regionId) dc = (Inr None, de)
        \<and> issue (w MarketCreate)
            (markets_create (marketName_of (normalizeRow rawRow)) regionId) de = (Inl f, dg)
      \<longrightarrow> tryRow h w now rawRow d = (Inl f, dg))
     \<and> (tryRow h (ws i) (clock h i) rawRow d = (Inl f, d')
      \<longrightarrow> rowLoop h ws i (rawRow # rest) cnt d
          = rowLoop h ws (Suc i) rest (cnt\<lparr>errorCount := errorCount cnt + 1\<rparr>) d')"
proof (intro conjI impI)
  assume a: "issue (w CropFind) (crops_findFirst (cropName_of (normalizeRow rawRow))) d = (Inr None, da)
      \<and> issue (w CropCreate)
          (crops_create (cropName_of (normalizeRow rawRow))
             (categorizeCrop (cropName_of (normalizeRow rawRow)))
             (determineUnit (categorizeCrop (cropName_of (normalizeRow rawRow)))
                (cropName_of (normalizeRow rawRow)))) da = (Inl f, dc)"
  then have "resolveCrop w (cropName_of (normalizeRow rawRow)) d = (Inl f, dc)"
    using resolveCrop_create_fails by blast
  then show "tryRow h w now rawRow d = (Inl f, dc)"
    by (simp add: tryRow_valid [OF valid] andThen_Inl)
next
  assume a: "resolveCrop w (cropName_of (normalizeRow rawRow)) d = (Inr cropId, da)
        \<and> issue (w RegionFind) (regions_findFirst (regionName_of (normalizeRow rawRow))) da
            = (Inr None, dc)
        \<and> issue (w RegionCreate)
            (regions_create (regionName_of (normalizeRow rawRow))
               (regionCode (regionName_of (normalizeRow rawRow)))) dc = (Inl f, de)"
  then have "resolveRegion w (regionName_of (normalizeRow rawRow)) da = (Inl f, de)"
    using resolveRegion_create_fails by blast
  with a show "tryRow h w now rawRow d = (Inl f, de)"
    by (simp add: tryRow_valid [OF valid] andThen_Inl andThen_Inr)
next
  assume a: "marketName_of (normalizeRow rawRow) \<noteq> []
        \<and> resolveCrop w (cropName_of (normalizeRow rawRow)) d = (Inr cropId, da)
        \<and> resolveRegion w (regionName_of (normalizeRow rawRow)) da = (Inr regionId, dc)
        \<and> issue (w MarketFind)
            (markets_findFirst (marketName_of (normalizeRow rawRow)) regionId) dc = (Inr None, de)
        \<and> issue (w MarketCreate)
            (markets_create (marketName_of (normalizeRow rawRow)) regionId) de = (Inl f, dg)"
  then have "resolveMarket w (marketName_of (normalizeRow rawRow)) regionId dc = (Inl f, dg)"
    using resolveMarket_create_fails by blast
  with a show "tryRow h w now rawRow d = (Inl f, dg)"
    by (simp add: tryRow_valid [OF valid] andThen_Inl andThen_Inr)
next
  assume "tryRow h (ws i) (clock h i) rawRow d = (Inl f, d')"
  then show "rowLoop h ws i (rawRow # rest) cnt d
          = rowLoop h ws (Suc i) rest (cnt\<lparr>errorCount := errorCount cnt + 1\<rparr>) d'"
    by simp
qed

text \<open>
  Another batch commits the crop "Maize" between this batch's lookup and its create. The
  refused create leaves the transaction aborted.
\<close>

theorem create_fault_fails_the_row_witness:
  "cropName_of (normalizeRow maizeRow1) = ''Maize''
   \<and> regionName_of (normalizeRow maizeRow1) \<noteq> [] \<and> priceVal_of (normalizeRow maizeRow1) \<noteq> NaN
   \<and> issue (racingWorld 0 CropFind) (crops_findFirst ''Maize'') seededDb = (Inr None, seededDb)
   \<and> issue (racingWorld 0 CropCreate)
        (crops_create ''Maize'' (categorizeCrop ''Maize'')
           (determineUnit (categorizeCrop ''Maize'') ''Maize'')) seededDb
      = (Inl UniqueViolation, seededDb\<lparr>crops := [racingCrop], tx_aborted := True\<rparr>)
   \<and> tryRow eatHost (racingWorld 0) (clock eatHost 0) maizeRow1 seededDb
      = (Inl UniqueViolation, seededDb\<lparr>crops := [racingCrop], tx_aborted := True\<rparr>)
   \<and> rowLoop eatHost racingWorld 0 [maizeRow1]
        \<lparr>insertedCount = 0, skippedCount = 0, errorCount = 0\<rparr> seededDb
      = (\<lparr>insertedCount = 0, skippedCount = 0, errorCount = 1\<rparr>, seededDb\<lparr>crops := [racingCrop], tx_aborted := True\<rparr>)"
proof -
  have cn: "cropName_of (normalizeRow maizeRow1) = ''Maize''" by code_simp
  have rn: "regionName_of (normalizeRow maizeRow1) \<noteq> []" by code_simp
  have pv: "priceVal_of (normalizeRow maizeRow1) \<noteq> NaN" by code_simp
  have find: "issue (racingWorld 0 CropFind) (crops_findFirst ''Maize'') seededDb
              = (Inr None, seededDb)"
    by code_simp
  have create: "issue (racingWorld 0 CropCreate)
        (crops_create ''Maize'' (categorizeCrop ''Maize'')
           (determineUnit (categorizeCrop ''Maize'') ''Maize'')) seededDb
      = (Inl UniqueViolation, seededDb\<lparr>crops := [racingCrop], tx_aborted := True\<rparr>)"
    by code_simp
  have valid: "cropName_of (normalizeRow maizeRow1) \<noteq> []" using cn by simp
  note T = create_fault_fails_the_row [OF valid rn pv, where w = "racingWorld 0"
      and ws = racingWorld and i = 0 and h = eatHost and now = "clock eatHost 0" and d = seededDb
      and da = seededDb and dc = "seededDb\<lparr>crops := [racingCrop], tx_aborted := True\<rparr>" and f = UniqueViolation
      and d' = "seededDb\<lparr>crops := [racingCrop], tx_aborted := True\<rparr>" and rest = "[]"
      and cnt = "\<lparr>insertedCount = 0, skippedCount = 0, errorCount = 0\<rparr>"]
  from find create cn
  have "issue (racingWorld 0 CropFind) (crops_findFirst (cropName_of (normalizeRow maizeRow1)))
          seededDb = (Inr None, seededDb)
      \<and> issue (racingWorld 0 CropCreate)
          (crops_create (cropName_of (normalizeRow maizeRow1))
             (categorizeCrop (cropName_of (normalizeRow maizeRow1)))
             (determineUnit (categorizeCrop (cropName_of (normalizeRow maizeRow1)))
                (cropName_of (normalizeRow maizeRow1)))) seededDb
        = (Inl UniqueViolation, seededDb\<lparr>crops := [racingCrop], tx_aborted := True\<rparr>)"
    by simp
  from T [THEN conjunct1, THEN mp, OF this]
  have row: "tryRow eatHost (racingWorld 0) (clock eatHost 0) maizeRow1 seededDb
      = (Inl UniqueViolation, seededDb\<lparr>crops := [racingCrop], tx_aborted := True\<rparr>)" .
  from T [THEN conjunct2, THEN conjunct2, THEN conjunct2, THEN mp, OF row]
  have "rowLoop eatHost racingWorld 0 [maizeRow1]
        \<lparr>insertedCount = 0, skippedCount = 0, errorCount = 0\<rparr> seededDb
      = (\<lparr>insertedCount = 0, skippedCount = 0, errorCount = 1\<rparr>, seededDb\<lparr>crops := [racingCrop], tx_aborted := True\<rparr>)"
    by simp
  with cn rn pv find create row show ?thesis by simp
qed

text \<open>
  Claim C8 as stated fails: in that race the row is counted in \<open>errors\<close>; the other batch's
  crop is in the store, where a second lookup would find it, and no fact is inserted.
\<close>

theorem racing_create_is_not_refetched:
  "fst (processKamisFile eatHost racingWorld None (Inr [maizeRow1]) seededDb)
     = Inr \<lparr>inserted = 0, skipped = 0, errors = 1, total_rows = 1\<rparr>
   \<and> crops (snd (processKamisFile eatHost racingWorld None (Inr [maizeRow1]) seededDb))
       = [racingCrop]
   \<and> price_entries (snd (processKamisFile eatHost racingWorld None (Inr [maizeRow1]) seededDb))
       = []"
  by code_simp

subsection \<open>A transaction that fails as a whole, and a row that fails\<close>

lemma same_tables_refl: "reflp same_tables"
  by (rule reflpI) (simp add: same_tables_def)

lemma same_tables_trans: "transp same_tables"
  by (rule transpI) (simp add: same_tables_def)

lemma same_tables_abort: "abort_rel same_tables"
  by (simp add: abort_rel_def same_tables_def)

lemma same_tables_world: "faults_only w \<Longrightarrow> world_rel w same_tables"
  by (auto simp: faults_only_def world_rel_def same_tables_def ownWrites_def)

lemma same_tables_creates:
  "tx_rel (crops_create n cat u) same_tables"
  "tx_rel (regions_create n code) same_tables"
  "tx_rel (markets_create n rid) same_tables"
  "tx_rel (price_entries_create cid rid mid price date src ver unit) same_tables"
  by (auto simp: tx_rel_def crops_create_def regions_create_def markets_create_def
      price_entries_create_def serverRefuses_def clientRefuses_def same_tables_def Let_def
      split: option.splits jsnum.splits)

lemma same_tables_tryRow: "faults_only w \<Longrightarrow> tx_rel (tryRow h w now rawRow) same_tables"
  by (rule tx_rel_tryRow [OF same_tables_refl same_tables_trans same_tables_abort
        same_tables_world same_tables_creates])

lemma same_tables_rowLoop:
  assumes "\<forall>i. faults_only (w i)" and "rowLoop h w i rows cnt d = (cnt', d')"
  shows "same_tables d d'"
  using same_tables_refl same_tables_trans
proof (rule rowLoop_rel)
  fix i rawRow
  from assms(1) have "faults_only (w i)" by simp
  then show "tx_rel (tryRow h (w i) (clock h i) rawRow) same_tables"
    by (rule same_tables_tryRow)
qed (rule assms(2))

lemma quiet_faults_only: "faults_only (quiet i)"
  by (simp add: faults_only_def quiet_def quiet_row_def)

text \<open>
  Claim C3, as amended. When no other batch is at work and the batch transaction fails as a
  whole with an error \<open>e\<close> that carries a message, \<open>syncKamisData\<close> throws \<open>e\<close> and
  returns no aggregate; crops, regions, markets and price entries are as before the run;
  and the run's log row, created with the next identifier, ends with status failed, zero
  counts and the message of \<open>e\<close>. When the transaction does not fail as a whole, the run
  returns the aggregate and its log row ends with status completed and no error message,
  whatever happened to single rows: an error raised while a row is processed is caught in
  the loop.
\<close>

theorem failed_run_commits_nothing_and_is_logged:
  assumes world: "\<forall>i. faults_only (w i)"
  shows
    "(failure = Some e \<and> message e \<noteq> [] \<longrightarrow>
        (\<exists>d'. syncKamisData h w failure path (Some (Inr rows)) d = (Inl e, d')
           \<and> price_entries d' = price_entries d \<and> crops d' = crops d
           \<and> regions d' = regions d \<and> markets d' = markets d
           \<and> kamis_sync_logs d'
               = map (\<lambda>l. if l_id l = next_id d
                           then l\<lparr>l_records_processed := 0, l_records_inserted := 0,
                                  l_records_updated := 0, l_status := ''failed'',
                                  l_error_message := Some (message e)\<rparr>
                           else l) (kamis_sync_logs d)
                 @ [\<lparr>l_id = next_id d, l_status = ''failed'', l_records_processed = 0,
                     l_records_inserted = 0, l_records_updated = 0,
                     l_error_message = Some (message e)\<rparr>]))
     \<and> (failure = None \<longrightarrow>
        (\<exists>agg d'. syncKamisData h w failure path (Some (Inr rows)) d
                    = (Inr \<lparr>records_synced = inserted agg, details = agg\<rparr>, d')
           \<and> total_rows agg = length rows
           \<and> kamis_sync_logs d'
               = map (\<lambda>l. if l_id l = next_id d
                           then l\<lparr>l_records_processed := length rows,
                                  l_records_inserted := inserted agg,
                                  l_records_updated := 0, l_status := ''completed'',
                                  l_error_message := None\<rparr>
                           else l) (kamis_sync_logs d)
                 @ [\<lparr>l_id = next_id d, l_status = ''completed'',
                     l_records_processed = length rows, l_records_inserted = inserted agg,
                     l_records_updated = 0, l_error_message = None\<rparr>]))"
proof -
  define d1 where "d1 = snd (startSyncLog d)"
  have start: "startSyncLog d = (next_id d, d1)"
    by (simp add: d1_def startSyncLog_def Let_def)
  have d1: "crops d1 = crops d" "regions d1 = regions d" "markets d1 = markets d"
    "price_entries d1 = price_entries d"
    "kamis_sync_logs d1 = kamis_sync_logs d @
       [\<lparr>l_id = next_id d, l_status = ''running'', l_records_processed = 0,
         l_records_inserted = 0, l_records_updated = 0, l_error_message = None\<rparr>]"
    by (simp_all add: d1_def startSyncLog_def Let_def)
  obtain res d2 where run: "processKamisFile h w failure (Inr rows) d1 = (res, d2)"
    by (cases "processKamisFile h w failure (Inr rows) d1")
  from processKamisFile_run [OF run] obtain cnt dl where loop:
    "rowLoop h w 0 rows \<lparr>insertedCount = 0, skippedCount = 0, errorCount = 0\<rparr> (beginTx d1)
       = (cnt, dl)"
    and ok: "failure = None \<longrightarrow>
           res = Inr \<lparr>inserted = insertedCount cnt, skipped = skippedCount cnt,
                       errors = errorCount cnt, total_rows = length rows\<rparr>
           \<and> d2 = (if tx_aborted dl then rollbackTx dl else commitTx dl)"
    and failed: "\<forall>e. failure = Some e \<longrightarrow> res = Inl e \<and> d2 = rollbackTx dl"
    by blast
  from same_tables_rowLoop [OF world loop]
  have dl: "crops dl = crops d" "regions dl = regions d" "markets dl = markets d"
    "price_entries dl = price_entries d" "kamis_sync_logs dl = kamis_sync_logs d1"
    by (simp_all add: same_tables_def beginTx_def d1)
  show ?thesis
  proof (intro conjI impI)
    assume a: "failure = Some e \<and> message e \<noteq> []"
    with failed have res: "res = Inl e" "d2 = rollbackTx dl" by simp_all
    have out: "syncKamisData h w failure path (Some (Inr rows)) d
               = (Inl e, updateSyncLog (next_id d) 0 0 0 ''failed'' (Some (message e)) d2)"
      by (simp add: syncKamisData_def start run res)
    from a have msg: "truthy (Some (message e))" by (simp add: truthy_def)
    show "\<exists>d'. syncKamisData h w failure path (Some (Inr rows)) d = (Inl e, d')
           \<and> price_entries d' = price_entries d \<and> crops d' = crops d
           \<and> regions d' = regions d \<and> markets d' = markets d
           \<and> kamis_sync_logs d'
               = map (\<lambda>l. if l_id l = next_id d
                           then l\<lparr>l_records_processed := 0, l_records_inserted := 0,
                                  l_records_updated := 0, l_status := ''failed'',
                                  l_error_message := Some (message e)\<rparr>
                           else l) (kamis_sync_logs d)
                 @ [\<lparr>l_id = next_id d, l_status = ''failed'', l_records_processed = 0,
                     l_records_inserted = 0, l_records_updated = 0,
                     l_error_message = Some (message e)\<rparr>]"
      unfolding out using msg
      by (simp add: updateSyncLog_def res rollbackTx_def dl d1)
  next
    assume a: "failure = None"
    define agg where "agg = \<lparr>inserted = insertedCount cnt, skipped = skippedCount cnt,
                       errors = errorCount cnt, total_rows = length rows\<rparr>"
    from a ok have res: "res = Inr agg"
      "d2 = (if tx_aborted dl then rollbackTx dl else commitTx dl)"
      by (simp_all add: agg_def)
    have out: "syncKamisData h w failure path (Some (Inr rows)) d
               = (Inr \<lparr>records_synced = inserted agg, details = agg\<rparr>,
                  updateSyncLog (next_id d) (total_rows agg) (inserted agg) 0 ''completed''
                    None d2)"
      by (simp add: syncKamisData_def start run res)
    have logs: "kamis_sync_logs d2 = kamis_sync_logs d1"
      by (simp add: res rollbackTx_def commitTx_def dl)
    have "total_rows agg = length rows
           \<and> kamis_sync_logs (updateSyncLog (next_id d) (total_rows agg) (inserted agg) 0
                ''completed'' None d2)
               = map (\<lambda>l. if l_id l = next_id d
                           then l\<lparr>l_records_processed := length rows,
                                  l_records_inserted := inserted agg,
                                  l_records_updated := 0, l_status := ''completed'',
                                  l_error_message := None\<rparr>
                           else l) (kamis_sync_logs d)
                 @ [\<lparr>l_id = next_id d, l_status = ''completed'',
                     l_records_processed = length rows, l_records_inserted = inserted agg,
                     l_records_updated = 0, l_error_message = None\<rparr>]"
      by (simp add: updateSyncLog_def logs d1 truthy_def agg_def)
    with out show "\<exists>agg d'. syncKamisData h w failure path (Some (Inr rows)) d
                    = (Inr \<lparr>records_synced = inserted agg, details = agg\<rparr>, d')
           \<and> total_rows agg = length rows
           \<and> kamis_sync_logs d'
               = map (\<lambda>l. if l_id l = next_id d
                           then l\<lparr>l_records_processed := length rows,
                                  l_records_inserted := inserted agg,
                                  l_records_updated := 0, l_status := ''completed'',
                                  l_error_message := None\<rparr>
                           else l) (kamis_sync_logs d)
                 @ [\<lparr>l_id = next_id d, l_status = ''completed'',
                     l_records_processed = length rows, l_records_inserted = inserted agg,
                     l_records_updated = 0, l_error_message = None\<rparr>]"
      by blast
  qed
qed

text \<open>
  The two-row file in a transaction that times out, and a file whose second row fails on
  its date in a transaction that does not fail.
\<close>

theorem failed_run_commits_nothing_and_is_logged_witness:
  "(\<forall>i. faults_only (quiet i))
   \<and> message (Error ''Transaction already closed'') \<noteq> []
   \<and> fst (syncKamisData eatHost quiet (Some (Error ''Transaction already closed''))
             ''kamis_latest.csv'' (Some (Inr [maizeRow1, maizeRow2])) seededDb)
       = Inl (Error ''Transaction already closed'')
   \<and> price_entries (snd (syncKamisData eatHost quiet (Some (Error ''Transaction already closed''))
             ''kamis_latest.csv'' (Some (Inr [maizeRow1, maizeRow2])) seededDb)) = []
   \<and> crops (snd (syncKamisData eatHost quiet (Some (Error ''Transaction already closed''))
             ''kamis_latest.csv'' (Some (Inr [maizeRow1, maizeRow2])) seededDb)) = []
   \<and> kamis_sync_logs (snd (syncKamisData eatHost quiet
             (Some (Error ''Transaction already closed''))
             ''kamis_latest.csv'' (Some (Inr [maizeRow1, maizeRow2])) seededDb))
       = [\<lparr>l_id = 1, l_status = ''failed'', l_records_processed = 0, l_records_inserted = 0,
           l_records_updated = 0, l_error_message = Some ''Transaction already closed''\<rparr>]
   \<and> (\<exists>agg d'. syncKamisData eatHost quiet None ''kamis_latest.csv''
                     (Some (Inr [maizeRow1, badDateRow])) seededDb
                   = (Inr \<lparr>records_synced = inserted agg, details = agg\<rparr>, d')
               \<and> total_rows agg = 2
               \<and> kamis_sync_logs d'
                   = [\<lparr>l_id = 1, l_status = ''completed'', l_records_processed = 2,
                       l_records_inserted = inserted agg, l_records_updated = 0,
                       l_error_message = None\<rparr>])"
proof -
  let ?e = "Error ''Transaction already closed''"
  let ?run = "syncKamisData eatHost quiet (Some ?e) ''kamis_latest.csv''
                (Some (Inr [maizeRow1, maizeRow2])) seededDb"
  have world: "\<forall>i. faults_only (quiet i)" by (simp add: quiet_faults_only)
  note T = failed_run_commits_nothing_and_is_logged [OF world]
  have msg: "message ?e \<noteq> []" by simp
  have store: "price_entries seededDb = []" "crops seededDb = []" "kamis_sync_logs seededDb = []"
    "next_id seededDb = 1"
    by (simp_all add: seededDb_def)
  from msg have "Some ?e = Some ?e \<and> message ?e \<noteq> []" by simp
  from T [where failure = "Some ?e" and e = "?e" and h = eatHost and path = "''kamis_latest.csv''"
      and rows = "[maizeRow1, maizeRow2]" and d = seededDb, THEN conjunct1, THEN mp, OF this]
  obtain d' where run: "?run = (Inl ?e, d')"
    and tables: "price_entries d' = price_entries seededDb" "crops d' = crops seededDb"
    and logs: "kamis_sync_logs d'
               = map (\<lambda>l. if l_id l = next_id seededDb
                           then l\<lparr>l_records_processed := 0, l_records_inserted := 0,
                                  l_records_updated := 0, l_status := ''failed'',
                                  l_error_message := Some (message ?e)\<rparr>
                           else l) (kamis_sync_logs seededDb)
                 @ [\<lparr>l_id = next_id seededDb, l_status = ''failed'', l_records_processed = 0,
                     l_records_inserted = 0, l_records_updated = 0,
                     l_error_message = Some (message ?e)\<rparr>]"
    by blast
  from run tables logs
  have failed: "fst ?run = Inl ?e" "price_entries (snd ?run) = []" "crops (snd ?run) = []"
    "kamis_sync_logs (snd ?run)
       = [\<lparr>l_id = 1, l_status = ''failed'', l_records_processed = 0, l_records_inserted = 0,
           l_records_updated = 0, l_error_message = Some ''Transaction already closed''\<rparr>]"
    by (simp_all add: store)
  from T [where failure = None and h = eatHost and path = "''kamis_latest.csv''"
      and rows = "[maizeRow1, badDateRow]" and d = seededDb, THEN conjunct2, THEN mp, OF refl]
  have completed: "\<exists>agg d'. syncKamisData eatHost quiet None ''kamis_latest.csv''
                     (Some (Inr [maizeRow1, badDateRow])) seededDb
                   = (Inr \<lparr>records_synced = inserted agg, details = agg\<rparr>, d')
               \<and> total_rows agg = 2
               \<and> kamis_sync_logs d'
                   = [\<lparr>l_id = 1, l_status = ''completed'', l_records_processed = 2,
                       l_records_inserted = inserted agg, l_records_updated = 0,
                       l_error_message = None\<rparr>]"
    by (simp add: store numeral_2_eq_2)
  from world msg failed completed show ?thesis by simp
qed

text \<open>
  Claim C3 as stated fails: the second row of this file raises an error inside the batch
  transaction, the client refusing its invalid date; yet the first row's price entry is
  committed, the aggregate is returned and the run is logged as completed, with no error
  message.
\<close>

theorem row_error_does_not_fail_the_run:
  "fst (tryRow eatHost quiet_row (clock eatHost 1) badDateRow seededDb) = Inl InvalidDateArgument
   \<and> fst (syncKamisData eatHost quiet None ''kamis_latest.csv''
             (Some (Inr [maizeRow1, badDateRow])) seededDb)
       = Inr \<lparr>records_synced = 1,
               details = \<lparr>inserted = 1, skipped = 0, errors = 1, total_rows = 2\<rparr>\<rparr>
   \<and> kamis_sync_logs (snd (syncKamisData eatHost quiet None ''kamis_latest.csv''
                              (Some (Inr [maizeRow1, badDateRow])) seededDb))
       = [\<lparr>l_id = 1, l_status = ''completed'', l_records_processed = 2,
           l_records_inserted = 1, l_records_updated = 0, l_error_message = None\<rparr>]
   \<and> map pe_price (price_entries (snd (syncKamisData eatHost quiet None ''kamis_latest.csv''
                                        (Some (Inr [maizeRow1, badDateRow])) seededDb)))
       = [91 / 2]"
  by code_simp

subsection \<open>Creating a reference row when nothing interferes\<close>

















subsection \<open>Tables that only grow\<close>









subsection \<open>Resolving a crop twice\<close>









text \<open>
  The same on the concrete store: both resolutions return the identifier 0, and the crops
  the transaction sees afterwards are the one row named "Maize".
\<close>

lemma resolveCrop_Maize_MAIZE:
  "fst (resolveCrop quiet_row ''Maize'' emptyDb) = Inr 0
   \<and> fst (resolveCrop quiet_row ''MAIZE'' (snd (resolveCrop quiet_row ''Maize'' emptyDb))) = Inr 0
   \<and> map c_name (seen_crops (snd (resolveCrop quiet_row ''MAIZE''
                                      (snd (resolveCrop quiet_row ''Maize'' emptyDb)))))
       = [''Maize'']"
  by code_simp

subsection \<open>The calendar day of a date\<close>






subsection \<open>A settled row writes nothing, and stays settled while the store grows\<close>








subsection \<open>After its first pass a row is settled\<close>








subsection \<open>Running the same file again\<close>







text \<open>
  The first run has to be committed. In this file the second row's region cannot be
  created, its code being too long: the server refuses the row and aborts the transaction,
  so that the first run, which counts one row as inserted, commits nothing; and the second
  run counts that row as inserted again.
\<close>

lemma rolled_back_run_inserts_again:
  "fst (processKamisFile eatHost quiet None (Inr [maizeRow1, longRegionRow]) seededDb)
     = Inr \<lparr>inserted = 1, skipped = 0, errors = 1, total_rows = 2\<rparr>
   \<and> tx_aborted (snd (processKamisFile eatHost quiet None (Inr [maizeRow1, longRegionRow])
                         seededDb))
   \<and> price_entries (snd (processKamisFile eatHost quiet None (Inr [maizeRow1, longRegionRow])
                            seededDb)) = []
   \<and> fst (processKamisFile eatHostLater quiet None (Inr [maizeRow1, longRegionRow])
            (snd (processKamisFile eatHost quiet None (Inr [maizeRow1, longRegionRow]) seededDb)))
     = Inr \<lparr>inserted = 1, skipped = 0, errors = 1, total_rows = 2\<rparr>"
  by code_simp

subsection \<open>The two-row scenario\<close>

text \<open>
  Claim C5. The scenario's outcome depends on the store and on the host's time zone. On a
  store that holds the region Central Kenya and no price of Maize there on 2024-01-09 or
  2024-01-10, the first row is inserted and the second skipped. On a fresh store the
  service has to create the region, derives the code \<^verbatim>\<open>CENTRAL_KENYA\<close> of thirteen
  characters for a column of ten, and the server refuses the row: the first row fails, the
  transaction is aborted, the second row fails too, and nothing is committed. On a host
  east of Greenwich the day window of 2024-01-10 starts on 2024-01-09 in UTC, so that a
  price of the day before makes both rows duplicates.
\<close>

theorem two_maize_rows_fail_on_a_fresh_store:
  "regionCode ''Central Kenya'' = ''CENTRAL_KENYA''
   \<and> tryRow eatHost quiet_row (clock eatHost 0) maizeRow1 (beginTx emptyDb)
       = (Inl ValueTooLong,
          emptyDb\<lparr>pending_crops := [\<lparr>c_id = 0, c_name = ''Maize'', c_category = ''cereals'',
                                      c_unit = ''kg'', c_is_active = True\<rparr>],
                  next_id := 1, tx_aborted := True\<rparr>)
   \<and> processKamisFile eatHost quiet None (Inr [maizeRow1, maizeRow2]) emptyDb
       = (Inr \<lparr>inserted = 0, skipped = 0, errors = 2, total_rows = 2\<rparr>,
          emptyDb\<lparr>next_id := 1, tx_aborted := True\<rparr>)
   \<and> fst (processKamisFile eatHost quiet None (Inr [maizeRow1, maizeRow2]) staleDb)
       = Inr \<lparr>inserted = 0, skipped = 2, errors = 0, total_rows = 2\<rparr>
   \<and> fst (processKamisFile eatHost quiet None (Inr [maizeRow1, maizeRow2]) seededDb)
       = Inr \<lparr>inserted = 1, skipped = 1, errors = 0, total_rows = 2\<rparr>
   \<and> map pe_price
         (price_entries (snd (processKamisFile eatHost quiet None (Inr [maizeRow1, maizeRow2])
                                seededDb)))
       = [91 / 2]"
  by code_simp

end
